theory Spec2Isabelle
  imports Complex_Main "HOL-Library.Sublist"
begin

section \<open>Pet care planner: storage schema and action handlers\<close>

text \<open>
  The four tables of the schema file and the action handlers of
  \<^verbatim>\<open>src/actions/index.ts\<close>. A table is the list of its rows, in insertion order;
  \<^verbatim>\<open>select ... where\<close> filters it, \<^verbatim>\<open>update ... set ... where\<close> rewrites the
  matching rows in place, \<^verbatim>\<open>delete ... where\<close> drops them and \<^verbatim>\<open>insert\<close> appends
  a row. The store enforces the \<^verbatim>\<open>references\<close> of the schema: it refuses to delete
  a pet that another row names, and to insert a log that names a routine it does not hold.
  The other writes cannot break a reference, since each handler has just found the pet
  (or the routine) that the row it writes names.

  A handler takes the request context, the parsed input, the environment of the call and
  the store; it returns the outcome (an \<^verbatim>\<open>ActionError\<close> or the response) together
  with the store as it stands when the handler returns or throws.
\<close>

subsection \<open>Values\<close>

text \<open>A date is its time value, the milliseconds since the epoch.\<close>

type_synonym date = int

text \<open>A date-typed input: \<^verbatim>\<open>z.union([z.date(), z.string().datetime()])\<close>.\<close>

datatype dateInput = DateObj date | DateString string

text \<open>\<^verbatim>\<open>z.enum(["done", "skipped"])\<close>.\<close>

datatype logStatus = status_done | status_skipped

subsection \<open>Tables\<close>

record pet_row =
  pet_id :: string
  pet_userId :: string
  pet_name :: string
  pet_species :: "string option"
  pet_breed :: "string option"
  pet_gender :: "string option"
  pet_dateOfBirth :: "date option"
  pet_color :: "string option"
  pet_weightKg :: "real option"
  pet_notes :: "string option"
  pet_createdAt :: date
  pet_updatedAt :: date

record routine_row =
  routine_id :: string
  routine_petId :: string
  routine_userId :: string
  routine_name :: string
  routine_description :: "string option"
  routine_frequency :: "string option"
  routine_timeOfDayLocal :: "string option"
  routine_daysOfWeekJson :: "string option"
  routine_isActive :: bool
  routine_createdAt :: date
  routine_updatedAt :: date

record log_row =
  log_id :: string
  log_petId :: string
  log_routineId :: "string option"
  log_userId :: string
  log_logDateTime :: date
  log_status :: "logStatus option"
  log_notes :: "string option"
  log_createdAt :: date

record visit_row =
  visit_id :: string
  visit_petId :: string
  visit_userId :: string
  visit_visitDate :: date
  visit_clinicName :: "string option"
  visit_reason :: "string option"
  visit_diagnosis :: "string option"
  visit_treatment :: "string option"
  visit_medications :: "string option"
  visit_followUpDate :: "date option"
  visit_createdAt :: date

record database =
  Pets :: "pet_row list"
  PetCareRoutines :: "routine_row list"
  PetCareLogs :: "log_row list"
  VetVisits :: "visit_row list"

subsection \<open>Request context, environment, outcomes\<close>

record user_rec =
  user_id :: string

record App_Locals =
  user :: "user_rec option"

record ActionAPIContext =
  locals :: "App_Locals option"

text \<open>
  What a call reads from outside the store: the built-ins \<^verbatim>\<open>new Date(string)\<close> and
  \<^verbatim>\<open>JSON.stringify\<close> (on a list of strings), the value of \<^verbatim>\<open>crypto.randomUUID()\<close>,
  and the first and the second value of \<^verbatim>\<open>new Date()\<close> in the call (no handler reads
  the clock more than twice).
\<close>

record env =
  Date_parse :: "string \<Rightarrow> date"
  JSON_stringify :: "string list \<Rightarrow> string"
  randomUUID :: string
  now1 :: date
  now2 :: date

datatype error_code = UNAUTHORIZED | NOT_FOUND | FORBIDDEN

text \<open>
  What a handler can end with other than its response: an \<^verbatim>\<open>ActionError\<close> that it
  throws itself, or an exception of the query builder or of the store, which it does not
  catch (the caller receives \<^verbatim>\<open>INTERNAL_SERVER_ERROR\<close>).
\<close>

datatype store_error = NoValuesToSet | ForeignKeyConstraint

datatype action_error = ActionError error_code string | StoreError store_error

datatype action_result =
    Success
  | PetData pet_row
  | RoutineData routine_row
  | LogData log_row
  | VisitData visit_row
  | PetItems "pet_row list" nat
  | RoutineItems "routine_row list" nat
  | LogItems "log_row list" nat
  | VisitItems "visit_row list" nat

type_synonym outcome = "action_error + action_result"

subsection \<open>Helpers\<close>

definition requireUser :: "ActionAPIContext \<Rightarrow> action_error + user_rec" where
  "requireUser context =
     (case locals context of
        None \<Rightarrow> Inl (ActionError UNAUTHORIZED ''You must be signed in to perform this action.'')
      | Some l \<Rightarrow>
          (case user l of
             None \<Rightarrow> Inl (ActionError UNAUTHORIZED ''You must be signed in to perform this action.'')
           | Some u \<Rightarrow> Inr u))"

text \<open>
  JavaScript truthiness of an optional date input: \<^verbatim>\<open>undefined\<close> and the empty string
  are falsy, a \<^verbatim>\<open>Date\<close> object and a non-empty string are truthy.
\<close>

fun truthy_date :: "dateInput option \<Rightarrow> bool" where
  "truthy_date None = False"
| "truthy_date (Some (DateObj d)) = True"
| "truthy_date (Some (DateString s)) = (s \<noteq> [])"

fun parseDateInput :: "env \<Rightarrow> dateInput option \<Rightarrow> date option" where
  "parseDateInput e None = None"
| "parseDateInput e (Some (DateObj d)) = Some d"
| "parseDateInput e (Some (DateString s)) = (if s = [] then None else Some (Date_parse e s))"

definition assertPetOwnership :: "string \<Rightarrow> string \<Rightarrow> database \<Rightarrow> action_error + pet_row" where
  "assertPetOwnership petId userId db =
     (case filter (\<lambda>p. pet_id p = petId \<and> pet_userId p = userId) (Pets db) of
        [] \<Rightarrow> Inl (ActionError NOT_FOUND ''Pet not found.'')
      | p # _ \<Rightarrow> Inr p)"

definition assertRoutineOwnership :: "string \<Rightarrow> string \<Rightarrow> database \<Rightarrow> action_error + routine_row" where
  "assertRoutineOwnership routineId userId db =
     (case filter (\<lambda>r. routine_id r = routineId \<and> routine_userId r = userId) (PetCareRoutines db) of
        [] \<Rightarrow> Inl (ActionError NOT_FOUND ''Care routine not found.'')
      | r # _ \<Rightarrow> Inr r)"

text \<open>\<^verbatim>\<open>update(T).set(u).where(c)\<close>: the rows that satisfy \<open>c\<close> are rewritten by \<open>u\<close>.\<close>

definition update_where :: "('r \<Rightarrow> bool) \<Rightarrow> ('r \<Rightarrow> 'r) \<Rightarrow> 'r list \<Rightarrow> 'r list" where
  "update_where c u rows = map (\<lambda>r. if c r then u r else r) rows"

text \<open>\<^verbatim>\<open>delete(T).where(c)\<close>.\<close>

definition delete_where :: "('r \<Rightarrow> bool) \<Rightarrow> 'r list \<Rightarrow> 'r list" where
  "delete_where c rows = filter (\<lambda>r. \<not> c r) rows"

text \<open>
  A key of the object given to \<^verbatim>\<open>set\<close>: a key that is missing, or whose value is
  \<^verbatim>\<open>undefined\<close>, leaves the column as it is.
\<close>

definition assign :: "'a option \<Rightarrow> 'a \<Rightarrow> 'a" where
  "assign v old = (case v of None \<Rightarrow> old | Some x \<Rightarrow> x)"

definition assign_opt :: "'a option \<Rightarrow> 'a option \<Rightarrow> 'a option" where
  "assign_opt v old = (case v of None \<Rightarrow> old | Some x \<Rightarrow> Some x)"

subsection \<open>Pets\<close>

record createPetInput =
  cp_name :: string
  cp_species :: "string option"
  cp_breed :: "string option"
  cp_gender :: "string option"
  cp_dateOfBirth :: "dateInput option"
  cp_color :: "string option"
  cp_weightKg :: "real option"
  cp_notes :: "string option"

definition createPet ::
  "ActionAPIContext \<Rightarrow> env \<Rightarrow> createPetInput \<Rightarrow> database \<Rightarrow> outcome \<times> database" where
  "createPet context e input db =
     (case requireUser context of
        Inl err \<Rightarrow> (Inl err, db)
      | Inr u \<Rightarrow>
          (let now = now1 e;
               pet = \<lparr>pet_id = randomUUID e,
                      pet_userId = user_id u,
                      pet_name = cp_name input,
                      pet_species = cp_species input,
                      pet_breed = cp_breed input,
                      pet_gender = cp_gender input,
                      pet_dateOfBirth = parseDateInput e (cp_dateOfBirth input),
                      pet_color = cp_color input,
                      pet_weightKg = cp_weightKg input,
                      pet_notes = cp_notes input,
                      pet_createdAt = now,
                      pet_updatedAt = now\<rparr>
           in (Inr (PetData pet), db\<lparr>Pets := Pets db @ [pet]\<rparr>)))"

record updatePetInput =
  up_id :: string
  up_name :: "string option"
  up_species :: "string option"
  up_breed :: "string option"
  up_gender :: "string option"
  up_dateOfBirth :: "dateInput option"
  up_color :: "string option"
  up_weightKg :: "real option"
  up_notes :: "string option"

text \<open>The object \<^verbatim>\<open>updates\<close> of \<^verbatim>\<open>updatePet\<close>, as the change it makes to a row.\<close>

definition updatePet_updates :: "env \<Rightarrow> updatePetInput \<Rightarrow> pet_row \<Rightarrow> pet_row" where
  "updatePet_updates e input row =
     row\<lparr>pet_updatedAt := now1 e,
         pet_name := assign (up_name input) (pet_name row),
         pet_species := assign_opt (up_species input) (pet_species row),
         pet_breed := assign_opt (up_breed input) (pet_breed row),
         pet_gender := assign_opt (up_gender input) (pet_gender row),
         pet_color := assign_opt (up_color input) (pet_color row),
         pet_weightKg := assign_opt (up_weightKg input) (pet_weightKg row),
         pet_notes := assign_opt (up_notes input) (pet_notes row),
         pet_dateOfBirth :=
           (case up_dateOfBirth input of
              None \<Rightarrow> pet_dateOfBirth row
            | Some d \<Rightarrow> assign_opt (parseDateInput e (Some d)) (pet_dateOfBirth row))\<rparr>"

definition updatePet ::
  "ActionAPIContext \<Rightarrow> env \<Rightarrow> updatePetInput \<Rightarrow> database \<Rightarrow> outcome \<times> database" where
  "updatePet context e input db =
     (case requireUser context of
        Inl err \<Rightarrow> (Inl err, db)
      | Inr u \<Rightarrow>
          (case assertPetOwnership (up_id input) (user_id u) db of
             Inl err \<Rightarrow> (Inl err, db)
           | Inr _ \<Rightarrow>
               (Inr Success,
                db\<lparr>Pets :=
                     update_where (\<lambda>p. pet_id p = up_id input \<and> pet_userId p = user_id u)
                       (updatePet_updates e input) (Pets db)\<rparr>)))"

text \<open>
  Some routine, log or visit names this pet: the three \<^verbatim>\<open>references\<close> to
  \<^verbatim>\<open>Pets.columns.id\<close> of the schema.
\<close>

definition pet_referenced :: "database \<Rightarrow> string \<Rightarrow> bool" where
  "pet_referenced db i =
     ((\<exists>r \<in> set (PetCareRoutines db). routine_petId r = i)
      \<or> (\<exists>l \<in> set (PetCareLogs db). log_petId l = i)
      \<or> (\<exists>v \<in> set (VetVisits db). visit_petId v = i))"

text \<open>The \<^verbatim>\<open>delete\<close> is refused by the store when the pet is still named by a row.\<close>

definition deletePet ::
  "ActionAPIContext \<Rightarrow> string \<Rightarrow> database \<Rightarrow> outcome \<times> database" where
  "deletePet context input_id db =
     (case requireUser context of
        Inl err \<Rightarrow> (Inl err, db)
      | Inr u \<Rightarrow>
          (case assertPetOwnership input_id (user_id u) db of
             Inl err \<Rightarrow> (Inl err, db)
           | Inr _ \<Rightarrow>
               if pet_referenced db input_id
               then (Inl (StoreError ForeignKeyConstraint), db)
               else
                 (Inr Success,
                  db\<lparr>Pets :=
                       delete_where (\<lambda>p. pet_id p = input_id \<and> pet_userId p = user_id u)
                         (Pets db)\<rparr>)))"

definition listPets :: "ActionAPIContext \<Rightarrow> database \<Rightarrow> outcome \<times> database" where
  "listPets context db =
     (case requireUser context of
        Inl err \<Rightarrow> (Inl err, db)
      | Inr u \<Rightarrow>
          (let pets = filter (\<lambda>p. pet_userId p = user_id u) (Pets db)
           in (Inr (PetItems pets (length pets)), db)))"

subsection \<open>Care routines\<close>

record createPetCareRoutineInput =
  cr_petId :: string
  cr_name :: string
  cr_description :: "string option"
  cr_frequency :: "string option"
  cr_timeOfDayLocal :: "string option"
  cr_daysOfWeek :: "string list option"

definition createPetCareRoutine ::
  "ActionAPIContext \<Rightarrow> env \<Rightarrow> createPetCareRoutineInput \<Rightarrow> database \<Rightarrow> outcome \<times> database" where
  "createPetCareRoutine context e input db =
     (case requireUser context of
        Inl err \<Rightarrow> (Inl err, db)
      | Inr u \<Rightarrow>
          (case assertPetOwnership (cr_petId input) (user_id u) db of
             Inl err \<Rightarrow> (Inl err, db)
           | Inr _ \<Rightarrow>
               (let now = now1 e;
                    routine = \<lparr>routine_id = randomUUID e,
                               routine_petId = cr_petId input,
                               routine_userId = user_id u,
                               routine_name = cr_name input,
                               routine_description = cr_description input,
                               routine_frequency = cr_frequency input,
                               routine_timeOfDayLocal = cr_timeOfDayLocal input,
                               routine_daysOfWeekJson =
                                 (case cr_daysOfWeek input of
                                    None \<Rightarrow> None
                                  | Some days \<Rightarrow> Some (JSON_stringify e days)),
                               routine_isActive = True,
                               routine_createdAt = now,
                               routine_updatedAt = now\<rparr>
                in (Inr (RoutineData routine),
                    db\<lparr>PetCareRoutines := PetCareRoutines db @ [routine]\<rparr>))))"

record updatePetCareRoutineInput =
  ur_id :: string
  ur_petId :: "string option"
  ur_name :: "string option"
  ur_description :: "string option"
  ur_frequency :: "string option"
  ur_timeOfDayLocal :: "string option"
  ur_daysOfWeek :: "string list option"
  ur_isActive :: "bool option"

definition updatePetCareRoutine_updates ::
  "env \<Rightarrow> updatePetCareRoutineInput \<Rightarrow> routine_row \<Rightarrow> routine_row" where
  "updatePetCareRoutine_updates e input row =
     row\<lparr>routine_updatedAt := now1 e,
         routine_petId := assign (ur_petId input) (routine_petId row),
         routine_name := assign (ur_name input) (routine_name row),
         routine_description := assign_opt (ur_description input) (routine_description row),
         routine_frequency := assign_opt (ur_frequency input) (routine_frequency row),
         routine_timeOfDayLocal := assign_opt (ur_timeOfDayLocal input) (routine_timeOfDayLocal row),
         routine_daysOfWeekJson :=
           (case ur_daysOfWeek input of
              None \<Rightarrow> routine_daysOfWeekJson row
            | Some days \<Rightarrow> Some (JSON_stringify e days)),
         routine_isActive := assign (ur_isActive input) (routine_isActive row)\<rparr>"

definition updatePetCareRoutine ::
  "ActionAPIContext \<Rightarrow> env \<Rightarrow> updatePetCareRoutineInput \<Rightarrow> database \<Rightarrow> outcome \<times> database" where
  "updatePetCareRoutine context e input db =
     (case requireUser context of
        Inl err \<Rightarrow> (Inl err, db)
      | Inr u \<Rightarrow>
          (case assertRoutineOwnership (ur_id input) (user_id u) db of
             Inl err \<Rightarrow> (Inl err, db)
           | Inr routine \<Rightarrow>
               (let targetPetId = (case ur_petId input of None \<Rightarrow> routine_petId routine | Some p \<Rightarrow> p)
                in case assertPetOwnership targetPetId (user_id u) db of
                     Inl err \<Rightarrow> (Inl err, db)
                   | Inr _ \<Rightarrow>
                       (Inr Success,
                        db\<lparr>PetCareRoutines :=
                             update_where
                               (\<lambda>r. routine_id r = ur_id input \<and> routine_userId r = user_id u)
                               (updatePetCareRoutine_updates e input) (PetCareRoutines db)\<rparr>))))"

definition archivePetCareRoutine ::
  "ActionAPIContext \<Rightarrow> env \<Rightarrow> string \<Rightarrow> database \<Rightarrow> outcome \<times> database" where
  "archivePetCareRoutine context e input_id db =
     (case requireUser context of
        Inl err \<Rightarrow> (Inl err, db)
      | Inr u \<Rightarrow>
          (case assertRoutineOwnership input_id (user_id u) db of
             Inl err \<Rightarrow> (Inl err, db)
           | Inr _ \<Rightarrow>
               (Inr Success,
                db\<lparr>PetCareRoutines :=
                     update_where (\<lambda>r. routine_id r = input_id \<and> routine_userId r = user_id u)
                       (\<lambda>r. r\<lparr>routine_isActive := False, routine_updatedAt := now1 e\<rparr>)
                       (PetCareRoutines db)\<rparr>)))"

text \<open>
  The input of \<^verbatim>\<open>listPetCareRoutines\<close> as the caller sends it, and as the handler
  receives it: the schema gives \<^verbatim>\<open>includeInactive\<close> the default \<^verbatim>\<open>false\<close>; the
  whole object is optional.
\<close>

record listPetCareRoutinesRaw =
  raw_petId :: "string option"
  raw_includeInactive :: "bool option"

record listPetCareRoutinesInput =
  lr_petId :: "string option"
  lr_includeInactive :: bool

definition parse_listPetCareRoutines ::
  "listPetCareRoutinesRaw option \<Rightarrow> listPetCareRoutinesInput option" where
  "parse_listPetCareRoutines raw =
     (case raw of
        None \<Rightarrow> None
      | Some r \<Rightarrow>
          Some \<lparr>lr_petId = raw_petId r,
                lr_includeInactive = (case raw_includeInactive r of None \<Rightarrow> False | Some b \<Rightarrow> b)\<rparr>)"

text \<open>\<^verbatim>\<open>and(...filters)\<close>.\<close>

definition and_filters :: "('r \<Rightarrow> bool) list \<Rightarrow> 'r \<Rightarrow> bool" where
  "and_filters fs r = list_all (\<lambda>f. f r) fs"

definition listPetCareRoutines ::
  "ActionAPIContext \<Rightarrow> listPetCareRoutinesInput option \<Rightarrow> database \<Rightarrow> outcome \<times> database" where
  "listPetCareRoutines context input db =
     (case requireUser context of
        Inl err \<Rightarrow> (Inl err, db)
      | Inr u \<Rightarrow>
          (let filters0 = [\<lambda>r. routine_userId r = user_id u];
               filters1 =
                 (case input of
                    None \<Rightarrow> filters0
                  | Some i \<Rightarrow>
                      (case lr_petId i of
                         None \<Rightarrow> filters0
                       | Some p \<Rightarrow> if p \<noteq> [] then filters0 @ [\<lambda>r. routine_petId r = p] else filters0));
               filters =
                 (if \<not> (case input of None \<Rightarrow> False | Some i \<Rightarrow> lr_includeInactive i)
                  then filters1 @ [\<lambda>r. routine_isActive r = True]
                  else filters1);
               whereClause = (if length filters = 1 then hd filters else and_filters filters);
               routines = filter whereClause (PetCareRoutines db)
           in (Inr (RoutineItems routines (length routines)), db)))"

subsection \<open>Care logs\<close>

record createPetCareLogInput =
  cl_petId :: string
  cl_routineId :: "string option"
  cl_logDateTime :: "dateInput option"
  cl_status :: "logStatus option"
  cl_notes :: "string option"

text \<open>
  The block guarded by \<^verbatim>\<open>if (input.routineId)\<close>: the error it throws, if any. The
  guard is a truthiness test, so the empty string skips the block as a missing
  \<^verbatim>\<open>routineId\<close> does.
\<close>

definition createPetCareLog_routine ::
  "createPetCareLogInput \<Rightarrow> string \<Rightarrow> database \<Rightarrow> action_error option" where
  "createPetCareLog_routine input userId db =
     (case cl_routineId input of
        None \<Rightarrow> None
      | Some rid \<Rightarrow>
          if rid \<noteq> [] then
            (case assertRoutineOwnership rid userId db of
               Inl err \<Rightarrow> Some err
             | Inr routine \<Rightarrow>
                 if routine_petId routine \<noteq> cl_petId input
                 then Some (ActionError FORBIDDEN ''Routine does not belong to this pet.'')
                 else None)
          else None)"

text \<open>
  The reference of \<^verbatim>\<open>PetCareLogs.routineId\<close>: the column is empty, or the store holds a
  routine with that id. The \<^verbatim>\<open>insert\<close> is refused otherwise, which happens only for
  the empty string: a non-empty \<^verbatim>\<open>routineId\<close> has been looked up by then.
\<close>

definition routine_reference_ok :: "database \<Rightarrow> string option \<Rightarrow> bool" where
  "routine_reference_ok db routineId =
     (case routineId of
        None \<Rightarrow> True
      | Some rid \<Rightarrow> (\<exists>r \<in> set (PetCareRoutines db). routine_id r = rid))"

definition createPetCareLog ::
  "ActionAPIContext \<Rightarrow> env \<Rightarrow> createPetCareLogInput \<Rightarrow> database \<Rightarrow> outcome \<times> database" where
  "createPetCareLog context e input db =
     (case requireUser context of
        Inl err \<Rightarrow> (Inl err, db)
      | Inr u \<Rightarrow>
          (case assertPetOwnership (cl_petId input) (user_id u) db of
             Inl err \<Rightarrow> (Inl err, db)
           | Inr _ \<Rightarrow>
               (case createPetCareLog_routine input (user_id u) db of
                  Some err \<Rightarrow> (Inl err, db)
                | None \<Rightarrow>
                    if \<not> routine_reference_ok db (cl_routineId input)
                    then (Inl (StoreError ForeignKeyConstraint), db)
                    else
                    (let log = \<lparr>log_id = randomUUID e,
                                log_petId = cl_petId input,
                                log_routineId = cl_routineId input,
                                log_userId = user_id u,
                                log_logDateTime =
                                  (if truthy_date (cl_logDateTime input)
                                   then (case parseDateInput e (cl_logDateTime input) of
                                           Some d \<Rightarrow> d
                                         | None \<Rightarrow> now1 e)
                                   else now1 e),
                                log_status = cl_status input,
                                log_notes = cl_notes input,
                                log_createdAt =
                                  (if truthy_date (cl_logDateTime input) then now1 e else now2 e)\<rparr>
                     in (Inr (LogData log), db\<lparr>PetCareLogs := PetCareLogs db @ [log]\<rparr>)))))"

definition listPetCareLogs ::
  "ActionAPIContext \<Rightarrow> string \<Rightarrow> database \<Rightarrow> outcome \<times> database" where
  "listPetCareLogs context petId db =
     (case requireUser context of
        Inl err \<Rightarrow> (Inl err, db)
      | Inr u \<Rightarrow>
          (case assertPetOwnership petId (user_id u) db of
             Inl err \<Rightarrow> (Inl err, db)
           | Inr _ \<Rightarrow>
               (let logs = filter (\<lambda>l. log_petId l = petId \<and> log_userId l = user_id u)
                             (PetCareLogs db)
                in (Inr (LogItems logs (length logs)), db))))"

definition deletePetCareLog ::
  "ActionAPIContext \<Rightarrow> string \<Rightarrow> database \<Rightarrow> outcome \<times> database" where
  "deletePetCareLog context input_id db =
     (case requireUser context of
        Inl err \<Rightarrow> (Inl err, db)
      | Inr u \<Rightarrow>
          (case filter (\<lambda>l. log_id l = input_id \<and> log_userId l = user_id u) (PetCareLogs db) of
             [] \<Rightarrow> (Inl (ActionError NOT_FOUND ''Care log not found.''), db)
           | _ # _ \<Rightarrow>
               (Inr Success,
                db\<lparr>PetCareLogs :=
                     delete_where (\<lambda>l. log_id l = input_id \<and> log_userId l = user_id u)
                       (PetCareLogs db)\<rparr>)))"

subsection \<open>Vet visits\<close>

record createVetVisitInput =
  cv_petId :: string
  cv_visitDate :: "dateInput option"
  cv_clinicName :: "string option"
  cv_reason :: "string option"
  cv_diagnosis :: "string option"
  cv_treatment :: "string option"
  cv_medications :: "string option"
  cv_followUpDate :: "dateInput option"

text \<open>
  In the row that \<^verbatim>\<open>createVetVisit\<close> builds, \<^verbatim>\<open>visitDate\<close> is written before
  \<^verbatim>\<open>createdAt\<close>: when the input has no (truthy) \<^verbatim>\<open>visitDate\<close> the first reading of
  the clock goes to \<^verbatim>\<open>visitDate\<close> and the second to \<^verbatim>\<open>createdAt\<close>; otherwise
  \<^verbatim>\<open>createdAt\<close> takes the only reading. \<^verbatim>\<open>createPetCareLog\<close> does the same with
  \<^verbatim>\<open>logDateTime\<close>.
\<close>

definition createVetVisit ::
  "ActionAPIContext \<Rightarrow> env \<Rightarrow> createVetVisitInput \<Rightarrow> database \<Rightarrow> outcome \<times> database" where
  "createVetVisit context e input db =
     (case requireUser context of
        Inl err \<Rightarrow> (Inl err, db)
      | Inr u \<Rightarrow>
          (case assertPetOwnership (cv_petId input) (user_id u) db of
             Inl err \<Rightarrow> (Inl err, db)
           | Inr _ \<Rightarrow>
               (let visit = \<lparr>visit_id = randomUUID e,
                             visit_petId = cv_petId input,
                             visit_userId = user_id u,
                             visit_visitDate =
                               (if truthy_date (cv_visitDate input)
                                then (case parseDateInput e (cv_visitDate input) of
                                        Some d \<Rightarrow> d
                                      | None \<Rightarrow> now1 e)
                                else now1 e),
                             visit_clinicName = cv_clinicName input,
                             visit_reason = cv_reason input,
                             visit_diagnosis = cv_diagnosis input,
                             visit_treatment = cv_treatment input,
                             visit_medications = cv_medications input,
                             visit_followUpDate = parseDateInput e (cv_followUpDate input),
                             visit_createdAt =
                               (if truthy_date (cv_visitDate input) then now1 e else now2 e)\<rparr>
                in (Inr (VisitData visit), db\<lparr>VetVisits := VetVisits db @ [visit]\<rparr>))))"

record updateVetVisitInput =
  uv_id :: string
  uv_petId :: "string option"
  uv_visitDate :: "dateInput option"
  uv_clinicName :: "string option"
  uv_reason :: "string option"
  uv_diagnosis :: "string option"
  uv_treatment :: "string option"
  uv_medications :: "string option"
  uv_followUpDate :: "dateInput option"

definition updateVetVisit_updates :: "env \<Rightarrow> updateVetVisitInput \<Rightarrow> visit_row \<Rightarrow> visit_row" where
  "updateVetVisit_updates e input row =
     row\<lparr>visit_petId := assign (uv_petId input) (visit_petId row),
         visit_visitDate :=
           (case uv_visitDate input of
              None \<Rightarrow> visit_visitDate row
            | Some d \<Rightarrow> assign (parseDateInput e (Some d)) (visit_visitDate row)),
         visit_clinicName := assign_opt (uv_clinicName input) (visit_clinicName row),
         visit_reason := assign_opt (uv_reason input) (visit_reason row),
         visit_diagnosis := assign_opt (uv_diagnosis input) (visit_diagnosis row),
         visit_treatment := assign_opt (uv_treatment input) (visit_treatment row),
         visit_medications := assign_opt (uv_medications input) (visit_medications row),
         visit_followUpDate :=
           (case uv_followUpDate input of
              None \<Rightarrow> visit_followUpDate row
            | Some d \<Rightarrow> assign_opt (parseDateInput e (Some d)) (visit_followUpDate row))\<rparr>"

text \<open>
  The object \<^verbatim>\<open>updates\<close> of \<^verbatim>\<open>updateVetVisit\<close> has no key with a value: \<^verbatim>\<open>set\<close>
  then throws ``No values to set''. The objects of the other two updates always carry
  \<^verbatim>\<open>updatedAt\<close>.
\<close>

definition updateVetVisit_no_values :: "env \<Rightarrow> updateVetVisitInput \<Rightarrow> bool" where
  "updateVetVisit_no_values e input =
     (uv_petId input = None
      \<and> (case uv_visitDate input of None \<Rightarrow> True | Some d \<Rightarrow> parseDateInput e (Some d) = None)
      \<and> uv_clinicName input = None
      \<and> uv_reason input = None
      \<and> uv_diagnosis input = None
      \<and> uv_treatment input = None
      \<and> uv_medications input = None
      \<and> (case uv_followUpDate input of None \<Rightarrow> True | Some d \<Rightarrow> parseDateInput e (Some d) = None))"

definition updateVetVisit ::
  "ActionAPIContext \<Rightarrow> env \<Rightarrow> updateVetVisitInput \<Rightarrow> database \<Rightarrow> outcome \<times> database" where
  "updateVetVisit context e input db =
     (case requireUser context of
        Inl err \<Rightarrow> (Inl err, db)
      | Inr u \<Rightarrow>
          (case filter (\<lambda>v. visit_id v = uv_id input \<and> visit_userId v = user_id u) (VetVisits db) of
             [] \<Rightarrow> (Inl (ActionError NOT_FOUND ''Vet visit not found.''), db)
           | visit0 # _ \<Rightarrow>
               (let targetPetId = (case uv_petId input of None \<Rightarrow> visit_petId visit0 | Some p \<Rightarrow> p)
                in case assertPetOwnership targetPetId (user_id u) db of
                     Inl err \<Rightarrow> (Inl err, db)
                   | Inr _ \<Rightarrow>
                       if updateVetVisit_no_values e input
                       then (Inl (StoreError NoValuesToSet), db)
                       else
                         (Inr Success,
                          db\<lparr>VetVisits :=
                               update_where
                                 (\<lambda>v. visit_id v = uv_id input \<and> visit_userId v = user_id u)
                                 (updateVetVisit_updates e input) (VetVisits db)\<rparr>))))"

definition deleteVetVisit ::
  "ActionAPIContext \<Rightarrow> string \<Rightarrow> database \<Rightarrow> outcome \<times> database" where
  "deleteVetVisit context input_id db =
     (case requireUser context of
        Inl err \<Rightarrow> (Inl err, db)
      | Inr u \<Rightarrow>
          (case filter (\<lambda>v. visit_id v = input_id \<and> visit_userId v = user_id u) (VetVisits db) of
             [] \<Rightarrow> (Inl (ActionError NOT_FOUND ''Vet visit not found.''), db)
           | _ # _ \<Rightarrow>
               (Inr Success,
                db\<lparr>VetVisits :=
                     delete_where (\<lambda>v. visit_id v = input_id \<and> visit_userId v = user_id u)
                       (VetVisits db)\<rparr>)))"

definition listVetVisits ::
  "ActionAPIContext \<Rightarrow> string \<Rightarrow> database \<Rightarrow> outcome \<times> database" where
  "listVetVisits context petId db =
     (case requireUser context of
        Inl err \<Rightarrow> (Inl err, db)
      | Inr u \<Rightarrow>
          (case assertPetOwnership petId (user_id u) db of
             Inl err \<Rightarrow> (Inl err, db)
           | Inr _ \<Rightarrow>
               (let visits = filter (\<lambda>v. visit_petId v = petId \<and> visit_userId v = user_id u)
                               (VetVisits db)
                in (Inr (VisitItems visits (length visits)), db))))"

subsection \<open>The catalogue of operations\<close>

text \<open>The object \<^verbatim>\<open>server\<close>: one request per action, with its input.\<close>

datatype request =
    CreatePet createPetInput
  | UpdatePet updatePetInput
  | DeletePet string
  | ListPets
  | CreatePetCareRoutine createPetCareRoutineInput
  | UpdatePetCareRoutine updatePetCareRoutineInput
  | ArchivePetCareRoutine string
  | ListPetCareRoutines "listPetCareRoutinesRaw option"
  | CreatePetCareLog createPetCareLogInput
  | ListPetCareLogs string
  | DeletePetCareLog string
  | CreateVetVisit createVetVisitInput
  | UpdateVetVisit updateVetVisitInput
  | DeleteVetVisit string
  | ListVetVisits string

fun server :: "ActionAPIContext \<Rightarrow> env \<Rightarrow> request \<Rightarrow> database \<Rightarrow> outcome \<times> database" where
  "server c e (CreatePet i) db = createPet c e i db"
| "server c e (UpdatePet i) db = updatePet c e i db"
| "server c e (DeletePet i) db = deletePet c i db"
| "server c e ListPets db = listPets c db"
| "server c e (CreatePetCareRoutine i) db = createPetCareRoutine c e i db"
| "server c e (UpdatePetCareRoutine i) db = updatePetCareRoutine c e i db"
| "server c e (ArchivePetCareRoutine i) db = archivePetCareRoutine c e i db"
| "server c e (ListPetCareRoutines i) db = listPetCareRoutines c (parse_listPetCareRoutines i) db"
| "server c e (CreatePetCareLog i) db = createPetCareLog c e i db"
| "server c e (ListPetCareLogs i) db = listPetCareLogs c i db"
| "server c e (DeletePetCareLog i) db = deletePetCareLog c i db"
| "server c e (CreateVetVisit i) db = createVetVisit c e i db"
| "server c e (UpdateVetVisit i) db = updateVetVisit c e i db"
| "server c e (DeleteVetVisit i) db = deleteVetVisit c i db"
| "server c e (ListVetVisits i) db = listVetVisits c i db"

subsection \<open>Ownership, as the properties speak of it\<close>

text \<open>A row with this id exists and carries the caller's \<^verbatim>\<open>userId\<close>.\<close>

definition owns_pet :: "database \<Rightarrow> string \<Rightarrow> string \<Rightarrow> bool" where
  "owns_pet db userId i = (\<exists>p \<in> set (Pets db). pet_id p = i \<and> pet_userId p = userId)"

definition owns_routine :: "database \<Rightarrow> string \<Rightarrow> string \<Rightarrow> bool" where
  "owns_routine db userId i =
     (\<exists>r \<in> set (PetCareRoutines db). routine_id r = i \<and> routine_userId r = userId)"

definition owns_log :: "database \<Rightarrow> string \<Rightarrow> string \<Rightarrow> bool" where
  "owns_log db userId i = (\<exists>l \<in> set (PetCareLogs db). log_id l = i \<and> log_userId l = userId)"

definition owns_visit :: "database \<Rightarrow> string \<Rightarrow> string \<Rightarrow> bool" where
  "owns_visit db userId i = (\<exists>v \<in> set (VetVisits db). visit_id v = i \<and> visit_userId v = userId)"

text \<open>
  The references of the schema hold in a store: every \<^verbatim>\<open>petId\<close> is the id of a stored pet
  and every \<^verbatim>\<open>routineId\<close> that is set is the id of a stored routine.
\<close>

definition references_ok :: "database \<Rightarrow> bool" where
  "references_ok db =
     ((\<forall>r \<in> set (PetCareRoutines db). \<exists>p \<in> set (Pets db). pet_id p = routine_petId r)
      \<and> (\<forall>l \<in> set (PetCareLogs db).
            (\<exists>p \<in> set (Pets db). pet_id p = log_petId l)
            \<and> routine_reference_ok db (log_routineId l))
      \<and> (\<forall>v \<in> set (VetVisits db). \<exists>p \<in> set (Pets db). pet_id p = visit_petId v))"

subsection \<open>Partial updates, as the properties speak of them\<close>

text \<open>
  A row before and after an update: every column that the input can set and does not
  set has its old value, and so have \<^verbatim>\<open>id\<close>, \<^verbatim>\<open>userId\<close> and \<^verbatim>\<open>createdAt\<close>. For pets
  and routines nothing is said of \<^verbatim>\<open>updatedAt\<close>.
\<close>

definition pet_absent_kept :: "updatePetInput \<Rightarrow> pet_row \<Rightarrow> pet_row \<Rightarrow> bool" where
  "pet_absent_kept i old new =
     (pet_id new = pet_id old \<and> pet_userId new = pet_userId old
      \<and> pet_createdAt new = pet_createdAt old
      \<and> (up_name i = None \<longrightarrow> pet_name new = pet_name old)
      \<and> (up_species i = None \<longrightarrow> pet_species new = pet_species old)
      \<and> (up_breed i = None \<longrightarrow> pet_breed new = pet_breed old)
      \<and> (up_gender i = None \<longrightarrow> pet_gender new = pet_gender old)
      \<and> (up_dateOfBirth i = None \<longrightarrow> pet_dateOfBirth new = pet_dateOfBirth old)
      \<and> (up_color i = None \<longrightarrow> pet_color new = pet_color old)
      \<and> (up_weightKg i = None \<longrightarrow> pet_weightKg new = pet_weightKg old)
      \<and> (up_notes i = None \<longrightarrow> pet_notes new = pet_notes old))"

definition routine_absent_kept ::
  "updatePetCareRoutineInput \<Rightarrow> routine_row \<Rightarrow> routine_row \<Rightarrow> bool" where
  "routine_absent_kept i old new =
     (routine_id new = routine_id old \<and> routine_userId new = routine_userId old
      \<and> routine_createdAt new = routine_createdAt old
      \<and> (ur_petId i = None \<longrightarrow> routine_petId new = routine_petId old)
      \<and> (ur_name i = None \<longrightarrow> routine_name new = routine_name old)
      \<and> (ur_description i = None \<longrightarrow> routine_description new = routine_description old)
      \<and> (ur_frequency i = None \<longrightarrow> routine_frequency new = routine_frequency old)
      \<and> (ur_timeOfDayLocal i = None \<longrightarrow> routine_timeOfDayLocal new = routine_timeOfDayLocal old)
      \<and> (ur_daysOfWeek i = None \<longrightarrow> routine_daysOfWeekJson new = routine_daysOfWeekJson old)
      \<and> (ur_isActive i = None \<longrightarrow> routine_isActive new = routine_isActive old))"

text \<open>Two rows that differ in \<^verbatim>\<open>updatedAt\<close> at most.\<close>

definition pet_same_but_updatedAt :: "pet_row \<Rightarrow> pet_row \<Rightarrow> bool" where
  "pet_same_but_updatedAt a b = (b = a\<lparr>pet_updatedAt := pet_updatedAt b\<rparr>)"

definition routine_same_but_updatedAt :: "routine_row \<Rightarrow> routine_row \<Rightarrow> bool" where
  "routine_same_but_updatedAt a b = (b = a\<lparr>routine_updatedAt := routine_updatedAt b\<rparr>)"

definition visit_absent_kept :: "updateVetVisitInput \<Rightarrow> visit_row \<Rightarrow> visit_row \<Rightarrow> bool" where
  "visit_absent_kept i old new =
     (visit_id new = visit_id old \<and> visit_userId new = visit_userId old
      \<and> visit_createdAt new = visit_createdAt old
      \<and> (uv_petId i = None \<longrightarrow> visit_petId new = visit_petId old)
      \<and> (uv_visitDate i = None \<longrightarrow> visit_visitDate new = visit_visitDate old)
      \<and> (uv_clinicName i = None \<longrightarrow> visit_clinicName new = visit_clinicName old)
      \<and> (uv_reason i = None \<longrightarrow> visit_reason new = visit_reason old)
      \<and> (uv_diagnosis i = None \<longrightarrow> visit_diagnosis new = visit_diagnosis old)
      \<and> (uv_treatment i = None \<longrightarrow> visit_treatment new = visit_treatment old)
      \<and> (uv_medications i = None \<longrightarrow> visit_medications new = visit_medications old)
      \<and> (uv_followUpDate i = None \<longrightarrow> visit_followUpDate new = visit_followUpDate old))"

subsection \<open>A small store, two callers\<close>

definition alice :: user_rec where
  "alice = \<lparr>user_id = ''alice''\<rparr>"

definition bob :: user_rec where
  "bob = \<lparr>user_id = ''bob''\<rparr>"

definition as_alice :: ActionAPIContext where
  "as_alice = \<lparr>locals = Some \<lparr>user = Some alice\<rparr>\<rparr>"

definition as_bob :: ActionAPIContext where
  "as_bob = \<lparr>locals = Some \<lparr>user = Some bob\<rparr>\<rparr>"

definition as_nobody :: ActionAPIContext where
  "as_nobody = \<lparr>locals = Some \<lparr>user = None\<rparr>\<rparr>"

text \<open>
  The two built-ins are stand-ins here: any function serves, the handlers only pass
  their results on.
\<close>

definition env0 :: env where
  "env0 = \<lparr>Date_parse = (\<lambda>s. int (length s)),
           JSON_stringify = (\<lambda>days. concat days),
           randomUUID = ''u9'',
           now1 = 5000,
           now2 = 5003\<rparr>"

text \<open>The environment of a later call: the same built-ins, another id, a later clock.\<close>

definition env1 :: env where
  "env1 = env0\<lparr>randomUUID := ''u10'', now1 := 6000, now2 := 6002\<rparr>"

definition pet1 :: pet_row where
  "pet1 = \<lparr>pet_id = ''p1'', pet_userId = ''alice'', pet_name = ''Bruno'',
           pet_species = Some ''dog'', pet_breed = None, pet_gender = None,
           pet_dateOfBirth = None, pet_color = None, pet_weightKg = Some 12,
           pet_notes = None, pet_createdAt = 100, pet_updatedAt = 100\<rparr>"

definition pet2 :: pet_row where
  "pet2 = \<lparr>pet_id = ''p2'', pet_userId = ''bob'', pet_name = ''Mithra'',
           pet_species = Some ''cat'', pet_breed = None, pet_gender = None,
           pet_dateOfBirth = None, pet_color = None, pet_weightKg = None,
           pet_notes = None, pet_createdAt = 200, pet_updatedAt = 200\<rparr>"

definition pet3 :: pet_row where
  "pet3 = \<lparr>pet_id = ''p3'', pet_userId = ''alice'', pet_name = ''Kiwi'',
           pet_species = Some ''bird'', pet_breed = None, pet_gender = None,
           pet_dateOfBirth = None, pet_color = Some ''green'', pet_weightKg = None,
           pet_notes = None, pet_createdAt = 300, pet_updatedAt = 300\<rparr>"

definition routine1 :: routine_row where
  "routine1 = \<lparr>routine_id = ''r1'', routine_petId = ''p1'', routine_userId = ''alice'',
               routine_name = ''Morning feeding'', routine_description = None,
               routine_frequency = Some ''daily'', routine_timeOfDayLocal = None,
               routine_daysOfWeekJson = None, routine_isActive = True,
               routine_createdAt = 110, routine_updatedAt = 110\<rparr>"

definition routine2 :: routine_row where
  "routine2 = \<lparr>routine_id = ''r2'', routine_petId = ''p2'', routine_userId = ''bob'',
               routine_name = ''Evening walk'', routine_description = None,
               routine_frequency = None, routine_timeOfDayLocal = Some ''20:00'',
               routine_daysOfWeekJson = None, routine_isActive = False,
               routine_createdAt = 210, routine_updatedAt = 220\<rparr>"

definition log1 :: log_row where
  "log1 = \<lparr>log_id = ''l1'', log_petId = ''p1'', log_routineId = Some ''r1'',
           log_userId = ''alice'', log_logDateTime = 120, log_status = Some status_done,
           log_notes = None, log_createdAt = 120\<rparr>"

definition visit1 :: visit_row where
  "visit1 = \<lparr>visit_id = ''v1'', visit_petId = ''p1'', visit_userId = ''alice'',
             visit_visitDate = 130, visit_clinicName = Some ''Happy Paws'',
             visit_reason = Some ''check-up'', visit_diagnosis = None, visit_treatment = None,
             visit_medications = None, visit_followUpDate = None, visit_createdAt = 131\<rparr>"

definition visit2 :: visit_row where
  "visit2 = \<lparr>visit_id = ''v2'', visit_petId = ''p2'', visit_userId = ''bob'',
             visit_visitDate = 230, visit_clinicName = None,
             visit_reason = Some ''vaccination'', visit_diagnosis = None, visit_treatment = None,
             visit_medications = None, visit_followUpDate = None, visit_createdAt = 231\<rparr>"

definition db0 :: database where
  "db0 = \<lparr>Pets = [pet1, pet2, pet3], PetCareRoutines = [routine1, routine2],
          PetCareLogs = [log1], VetVisits = [visit1, visit2]\<rparr>"


text \<open>A store in which a routine carries the empty id, which \<^verbatim>\<open>randomUUID\<close> never gives.\<close>

definition db_empty_id :: database where
  "db_empty_id = db0\<lparr>PetCareRoutines := [routine1\<lparr>routine_id := []\<rparr>]\<rparr>"

text \<open>Inputs for the examples: the ids are given, one field is set, the others are absent.\<close>

definition up_in :: "string \<Rightarrow> updatePetInput" where
  "up_in i = \<lparr>up_id = i, up_name = Some ''Rex'', up_species = None, up_breed = None,
              up_gender = None, up_dateOfBirth = None, up_color = None, up_weightKg = None,
              up_notes = None\<rparr>"

definition cr_in :: "string \<Rightarrow> createPetCareRoutineInput" where
  "cr_in p = \<lparr>cr_petId = p, cr_name = ''Grooming'', cr_description = None,
              cr_frequency = Some ''weekly'', cr_timeOfDayLocal = None,
              cr_daysOfWeek = Some [''mon'', ''fri'']\<rparr>"

definition ur_in :: "string \<Rightarrow> string option \<Rightarrow> updatePetCareRoutineInput" where
  "ur_in i p = \<lparr>ur_id = i, ur_petId = p, ur_name = None, ur_description = Some ''twice'',
                ur_frequency = None, ur_timeOfDayLocal = None, ur_daysOfWeek = None,
                ur_isActive = None\<rparr>"

definition cl_in :: "string \<Rightarrow> string option \<Rightarrow> createPetCareLogInput" where
  "cl_in p r = \<lparr>cl_petId = p, cl_routineId = r, cl_logDateTime = None,
                cl_status = Some status_done, cl_notes = None\<rparr>"

definition cv_in :: "string \<Rightarrow> dateInput option \<Rightarrow> createVetVisitInput" where
  "cv_in p d = \<lparr>cv_petId = p, cv_visitDate = d, cv_clinicName = None,
                cv_reason = Some ''vaccination'', cv_diagnosis = None, cv_treatment = None,
                cv_medications = None, cv_followUpDate = None\<rparr>"

definition uv_in :: "string \<Rightarrow> string option \<Rightarrow> updateVetVisitInput" where
  "uv_in i p = \<lparr>uv_id = i, uv_petId = p, uv_visitDate = None, uv_clinicName = None,
                uv_reason = None, uv_diagnosis = Some ''healthy'', uv_treatment = None,
                uv_medications = None, uv_followUpDate = None\<rparr>"

text \<open>An update of a visit that names the visit and nothing else.\<close>

definition uv_nothing :: "string \<Rightarrow> updateVetVisitInput" where
  "uv_nothing i = \<lparr>uv_id = i, uv_petId = None, uv_visitDate = None, uv_clinicName = None,
                   uv_reason = None, uv_diagnosis = None, uv_treatment = None,
                   uv_medications = None, uv_followUpDate = None\<rparr>"

section \<open>Properties\<close>

subsection \<open>Lookups\<close>

lemmas row_defs = pet1_def pet2_def pet3_def routine1_def routine2_def log1_def visit1_def visit2_def

lemmas in_defs = up_in_def cr_in_def ur_in_def cl_in_def cv_in_def uv_in_def uv_nothing_def

lemma filter_Nil_case:
  "(\<forall>x \<in> set xs. \<not> P x) \<Longrightarrow> (case filter P xs of [] \<Rightarrow> a | y # ys \<Rightarrow> b y ys) = a"
  by (simp add: filter_empty_conv)

lemma filter_Cons_case:
  assumes "\<exists>x \<in> set xs. P x"
  obtains y ys where "filter P xs = y # ys" "y \<in> set xs" "P y"
proof -
  from assms have "filter P xs \<noteq> []" by (simp add: filter_empty_conv)
  then obtain y ys where e: "filter P xs = y # ys" by (cases "filter P xs") auto
  then have "y \<in> set (filter P xs)" by simp
  then have "y \<in> set xs" "P y" by auto
  with e show thesis using that by blast
qed

lemma assertPetOwnership_not_owned:
  "\<not> owns_pet db uid i \<Longrightarrow> assertPetOwnership i uid db = Inl (ActionError NOT_FOUND ''Pet not found.'')"
  unfolding assertPetOwnership_def owns_pet_def by (rule filter_Nil_case) blast

lemma assertPetOwnership_owned:
  assumes "owns_pet db uid i"
  obtains p where "assertPetOwnership i uid db = Inr p"
proof -
  from assms have "\<exists>p \<in> set (Pets db). pet_id p = i \<and> pet_userId p = uid"
    by (simp add: owns_pet_def)
  then obtain y ys where "filter (\<lambda>p. pet_id p = i \<and> pet_userId p = uid) (Pets db) = y # ys"
    by (rule filter_Cons_case)
  then have "assertPetOwnership i uid db = Inr y" by (simp add: assertPetOwnership_def)
  then show thesis by (rule that)
qed

lemma assertRoutineOwnership_not_owned:
  "\<not> owns_routine db uid i \<Longrightarrow>
   assertRoutineOwnership i uid db = Inl (ActionError NOT_FOUND ''Care routine not found.'')"
  unfolding assertRoutineOwnership_def owns_routine_def by (rule filter_Nil_case) blast

lemma assertRoutineOwnership_owned:
  assumes "owns_routine db uid i"
  obtains r where "assertRoutineOwnership i uid db = Inr r" "r \<in> set (PetCareRoutines db)"
    "routine_id r = i" "routine_userId r = uid"
proof -
  from assms have "\<exists>r \<in> set (PetCareRoutines db). routine_id r = i \<and> routine_userId r = uid"
    by (simp add: owns_routine_def)
  then obtain y ys where
    e: "filter (\<lambda>r. routine_id r = i \<and> routine_userId r = uid) (PetCareRoutines db) = y # ys"
    and y: "y \<in> set (PetCareRoutines db)" "routine_id y = i \<and> routine_userId y = uid"
    by (rule filter_Cons_case)
  from e have "assertRoutineOwnership i uid db = Inr y" by (simp add: assertRoutineOwnership_def)
  with y show thesis using that by blast
qed

lemma requireUser_as:
  "requireUser as_alice = Inr alice" "requireUser as_bob = Inr bob"
  by (simp_all add: requireUser_def as_alice_def as_bob_def)

lemma user_id_as: "user_id alice = ''alice''" "user_id bob = ''bob''"
  by (simp_all add: alice_def bob_def)

lemma db0_owned_by_bob:
  "\<not> owns_pet db0 ''bob'' ''p1''" "\<not> owns_pet db0 ''bob'' ''p7''" "owns_pet db0 ''bob'' ''p2''"
  "\<not> owns_routine db0 ''bob'' ''r1''" "owns_routine db0 ''bob'' ''r2''"
  "\<not> owns_log db0 ''bob'' ''l1''"
  "\<not> owns_visit db0 ''bob'' ''v1''" "owns_visit db0 ''bob'' ''v2''"
  by (simp_all add: owns_pet_def owns_routine_def owns_log_def owns_visit_def db0_def row_defs)

subsection \<open>No caller, no access\<close>

text \<open>
  C6. When the request context carries no user (no \<^verbatim>\<open>locals\<close>, or \<^verbatim>\<open>locals\<close>
  without a user), every operation of the catalogue fails with \<^verbatim>\<open>UNAUTHORIZED\<close>
  and returns the store as it was. The outcome is the same whatever the input and whatever
  the store holds: the check comes first and reads the context alone.
\<close>

theorem no_caller_UNAUTHORIZED:
  assumes "\<forall>l. locals c = Some l \<longrightarrow> user l = None"
  shows "server c e req db =
           (Inl (ActionError UNAUTHORIZED ''You must be signed in to perform this action.''), db)"
proof -
  have r: "requireUser c =
      Inl (ActionError UNAUTHORIZED ''You must be signed in to perform this action.'')"
    using assms by (simp add: requireUser_def split: option.splits)
  show ?thesis
    by (cases req)
      (simp_all add: r createPet_def updatePet_def deletePet_def listPets_def
        createPetCareRoutine_def updatePetCareRoutine_def archivePetCareRoutine_def
        listPetCareRoutines_def createPetCareLog_def listPetCareLogs_def deletePetCareLog_def
        createVetVisit_def updateVetVisit_def deleteVetVisit_def listVetVisits_def)
qed

theorem no_caller_UNAUTHORIZED_witness:
  "server as_nobody env0 (DeletePet ''p1'') db0 =
     (Inl (ActionError UNAUTHORIZED ''You must be signed in to perform this action.''), db0)
   \<and> server \<lparr>locals = None\<rparr> env0 (CreatePetCareLog (cl_in ''p1'' (Some ''r1''))) db0 =
     (Inl (ActionError UNAUTHORIZED ''You must be signed in to perform this action.''), db0)"
  using no_caller_UNAUTHORIZED [of as_nobody env0 "DeletePet ''p1''" db0]
    no_caller_UNAUTHORIZED [of "\<lparr>locals = None\<rparr>" env0 "CreatePetCareLog (cl_in ''p1'' (Some ''r1''))" db0]
  by (simp add: as_nobody_def)

subsection \<open>Rows of other users, rows that do not exist\<close>

text \<open>
  C1. For a signed-in caller, every operation that names a row fails with
  \<^verbatim>\<open>NOT_FOUND\<close> and returns the store unchanged when no row with that id carries the
  caller's \<^verbatim>\<open>userId\<close> (the id is unknown, or its row belongs to someone else):
  the pet of \<^verbatim>\<open>updatePet\<close>, \<^verbatim>\<open>deletePet\<close>, \<^verbatim>\<open>createPetCareRoutine\<close>,
  \<^verbatim>\<open>createPetCareLog\<close>, \<^verbatim>\<open>listPetCareLogs\<close>, \<^verbatim>\<open>createVetVisit\<close> and
  \<^verbatim>\<open>listVetVisits\<close>; the routine of \<^verbatim>\<open>updatePetCareRoutine\<close> and
  \<^verbatim>\<open>archivePetCareRoutine\<close>; the log of \<^verbatim>\<open>deletePetCareLog\<close>; the visit of
  \<^verbatim>\<open>updateVetVisit\<close> and \<^verbatim>\<open>deleteVetVisit\<close>; and also the new pet that an update
  of a routine or of a visit names, and the (non-empty) routine that a new log names.
\<close>

theorem not_owned_NOT_FOUND:
  assumes u: "requireUser c = Inr u"
  shows
    "(\<not> owns_pet db (user_id u) (up_id upi) \<longrightarrow>
        updatePet c e upi db = (Inl (ActionError NOT_FOUND ''Pet not found.''), db))
   \<and> (\<not> owns_pet db (user_id u) dpi \<longrightarrow>
        deletePet c dpi db = (Inl (ActionError NOT_FOUND ''Pet not found.''), db))
   \<and> (\<not> owns_pet db (user_id u) (cr_petId cri) \<longrightarrow>
        createPetCareRoutine c e cri db = (Inl (ActionError NOT_FOUND ''Pet not found.''), db))
   \<and> (\<not> owns_routine db (user_id u) (ur_id uri) \<longrightarrow>
        updatePetCareRoutine c e uri db = (Inl (ActionError NOT_FOUND ''Care routine not found.''), db))
   \<and> (\<forall>p. owns_routine db (user_id u) (ur_id uri') \<and> ur_petId uri' = Some p \<and>
          \<not> owns_pet db (user_id u) p \<longrightarrow>
        updatePetCareRoutine c e uri' db = (Inl (ActionError NOT_FOUND ''Pet not found.''), db))
   \<and> (\<not> owns_routine db (user_id u) ari \<longrightarrow>
        archivePetCareRoutine c e ari db = (Inl (ActionError NOT_FOUND ''Care routine not found.''), db))
   \<and> (\<not> owns_pet db (user_id u) (cl_petId cli) \<longrightarrow>
        createPetCareLog c e cli db = (Inl (ActionError NOT_FOUND ''Pet not found.''), db))
   \<and> (\<forall>rid. owns_pet db (user_id u) (cl_petId cli') \<and> cl_routineId cli' = Some rid \<and> rid \<noteq> [] \<and>
          \<not> owns_routine db (user_id u) rid \<longrightarrow>
        createPetCareLog c e cli' db = (Inl (ActionError NOT_FOUND ''Care routine not found.''), db))
   \<and> (\<not> owns_pet db (user_id u) lli \<longrightarrow>
        listPetCareLogs c lli db = (Inl (ActionError NOT_FOUND ''Pet not found.''), db))
   \<and> (\<not> owns_log db (user_id u) dli \<longrightarrow>
        deletePetCareLog c dli db = (Inl (ActionError NOT_FOUND ''Care log not found.''), db))
   \<and> (\<not> owns_pet db (user_id u) (cv_petId cvi) \<longrightarrow>
        createVetVisit c e cvi db = (Inl (ActionError NOT_FOUND ''Pet not found.''), db))
   \<and> (\<not> owns_visit db (user_id u) (uv_id uvi) \<longrightarrow>
        updateVetVisit c e uvi db = (Inl (ActionError NOT_FOUND ''Vet visit not found.''), db))
   \<and> (\<forall>p. owns_visit db (user_id u) (uv_id uvi') \<and> uv_petId uvi' = Some p \<and>
          \<not> owns_pet db (user_id u) p \<longrightarrow>
        updateVetVisit c e uvi' db = (Inl (ActionError NOT_FOUND ''Pet not found.''), db))
   \<and> (\<not> owns_visit db (user_id u) dvi \<longrightarrow>
        deleteVetVisit c dvi db = (Inl (ActionError NOT_FOUND ''Vet visit not found.''), db))
   \<and> (\<not> owns_pet db (user_id u) lvi \<longrightarrow>
        listVetVisits c lvi db = (Inl (ActionError NOT_FOUND ''Pet not found.''), db))"
proof -
  have log_nil: "\<not> owns_log db (user_id u) i \<Longrightarrow>
      filter (\<lambda>l. log_id l = i \<and> log_userId l = user_id u) (PetCareLogs db) = []" for i
    by (auto simp: owns_log_def filter_empty_conv)
  have visit_nil: "\<not> owns_visit db (user_id u) i \<Longrightarrow>
      filter (\<lambda>v. visit_id v = i \<and> visit_userId v = user_id u) (VetVisits db) = []" for i
    by (auto simp: owns_visit_def filter_empty_conv)
  have 1: "\<not> owns_pet db (user_id u) (up_id upi) \<longrightarrow>
        updatePet c e upi db = (Inl (ActionError NOT_FOUND ''Pet not found.''), db)"
    by (simp add: updatePet_def u assertPetOwnership_not_owned)
  have 2: "\<not> owns_pet db (user_id u) dpi \<longrightarrow>
        deletePet c dpi db = (Inl (ActionError NOT_FOUND ''Pet not found.''), db)"
    by (simp add: deletePet_def u assertPetOwnership_not_owned)
  have 3: "\<not> owns_pet db (user_id u) (cr_petId cri) \<longrightarrow>
        createPetCareRoutine c e cri db = (Inl (ActionError NOT_FOUND ''Pet not found.''), db)"
    by (simp add: createPetCareRoutine_def u assertPetOwnership_not_owned)
  have 4: "\<not> owns_routine db (user_id u) (ur_id uri) \<longrightarrow>
        updatePetCareRoutine c e uri db = (Inl (ActionError NOT_FOUND ''Care routine not found.''), db)"
    by (simp add: updatePetCareRoutine_def u assertRoutineOwnership_not_owned)
  have 5: "\<forall>p. owns_routine db (user_id u) (ur_id uri') \<and> ur_petId uri' = Some p \<and>
          \<not> owns_pet db (user_id u) p \<longrightarrow>
        updatePetCareRoutine c e uri' db = (Inl (ActionError NOT_FOUND ''Pet not found.''), db)"
  proof (intro allI impI, elim conjE)
    fix p
    assume p: "ur_petId uri' = Some p" "\<not> owns_pet db (user_id u) p"
      and "owns_routine db (user_id u) (ur_id uri')"
    then obtain r where "assertRoutineOwnership (ur_id uri') (user_id u) db = Inr r"
      by (auto elim: assertRoutineOwnership_owned)
    then show "updatePetCareRoutine c e uri' db = (Inl (ActionError NOT_FOUND ''Pet not found.''), db)"
      by (simp add: updatePetCareRoutine_def u p assertPetOwnership_not_owned)
  qed
  have 6: "\<not> owns_routine db (user_id u) ari \<longrightarrow>
        archivePetCareRoutine c e ari db = (Inl (ActionError NOT_FOUND ''Care routine not found.''), db)"
    by (simp add: archivePetCareRoutine_def u assertRoutineOwnership_not_owned)
  have 7: "\<not> owns_pet db (user_id u) (cl_petId cli) \<longrightarrow>
        createPetCareLog c e cli db = (Inl (ActionError NOT_FOUND ''Pet not found.''), db)"
    by (simp add: createPetCareLog_def u assertPetOwnership_not_owned)
  have 8: "\<forall>rid. owns_pet db (user_id u) (cl_petId cli') \<and> cl_routineId cli' = Some rid \<and> rid \<noteq> [] \<and>
          \<not> owns_routine db (user_id u) rid \<longrightarrow>
        createPetCareLog c e cli' db = (Inl (ActionError NOT_FOUND ''Care routine not found.''), db)"
  proof (intro allI impI, elim conjE)
    fix rid
    assume a: "owns_pet db (user_id u) (cl_petId cli')" "cl_routineId cli' = Some rid" "rid \<noteq> []"
      "\<not> owns_routine db (user_id u) rid"
    from a(1) obtain p where "assertPetOwnership (cl_petId cli') (user_id u) db = Inr p"
      by (rule assertPetOwnership_owned)
    then show "createPetCareLog c e cli' db = (Inl (ActionError NOT_FOUND ''Care routine not found.''), db)"
      using a(2-4)
      by (simp add: createPetCareLog_def u createPetCareLog_routine_def assertRoutineOwnership_not_owned)
  qed
  have 9: "\<not> owns_pet db (user_id u) lli \<longrightarrow>
        listPetCareLogs c lli db = (Inl (ActionError NOT_FOUND ''Pet not found.''), db)"
    by (simp add: listPetCareLogs_def u assertPetOwnership_not_owned)
  have 10: "\<not> owns_log db (user_id u) dli \<longrightarrow>
        deletePetCareLog c dli db = (Inl (ActionError NOT_FOUND ''Care log not found.''), db)"
    by (simp add: deletePetCareLog_def u log_nil)
  have 11: "\<not> owns_pet db (user_id u) (cv_petId cvi) \<longrightarrow>
        createVetVisit c e cvi db = (Inl (ActionError NOT_FOUND ''Pet not found.''), db)"
    by (simp add: createVetVisit_def u assertPetOwnership_not_owned)
  have 12: "\<not> owns_visit db (user_id u) (uv_id uvi) \<longrightarrow>
        updateVetVisit c e uvi db = (Inl (ActionError NOT_FOUND ''Vet visit not found.''), db)"
    by (simp add: updateVetVisit_def u visit_nil)
  have 13: "\<forall>p. owns_visit db (user_id u) (uv_id uvi') \<and> uv_petId uvi' = Some p \<and>
          \<not> owns_pet db (user_id u) p \<longrightarrow>
        updateVetVisit c e uvi' db = (Inl (ActionError NOT_FOUND ''Pet not found.''), db)"
    by (auto simp: updateVetVisit_def u assertPetOwnership_not_owned owns_visit_def
        filter_empty_conv split: list.splits)
  have 14: "\<not> owns_visit db (user_id u) dvi \<longrightarrow>
        deleteVetVisit c dvi db = (Inl (ActionError NOT_FOUND ''Vet visit not found.''), db)"
    by (simp add: deleteVetVisit_def u visit_nil)
  have 15: "\<not> owns_pet db (user_id u) lvi \<longrightarrow>
        listVetVisits c lvi db = (Inl (ActionError NOT_FOUND ''Pet not found.''), db)"
    by (simp add: listVetVisits_def u assertPetOwnership_not_owned)
  from 1 2 3 4 5 6 7 8 9 10 11 12 13 14 15 show ?thesis by blast
qed

theorem not_owned_NOT_FOUND_witness:
  "updatePet as_bob env0 (up_in ''p1'') db0 = (Inl (ActionError NOT_FOUND ''Pet not found.''), db0)
   \<and> deletePet as_bob ''p7'' db0 = (Inl (ActionError NOT_FOUND ''Pet not found.''), db0)
   \<and> createPetCareRoutine as_bob env0 (cr_in ''p1'') db0 = (Inl (ActionError NOT_FOUND ''Pet not found.''), db0)
   \<and> updatePetCareRoutine as_bob env0 (ur_in ''r1'' None) db0 = (Inl (ActionError NOT_FOUND ''Care routine not found.''), db0)
   \<and> updatePetCareRoutine as_bob env0 (ur_in ''r2'' (Some ''p1'')) db0 = (Inl (ActionError NOT_FOUND ''Pet not found.''), db0)
   \<and> archivePetCareRoutine as_bob env0 ''r1'' db0 = (Inl (ActionError NOT_FOUND ''Care routine not found.''), db0)
   \<and> createPetCareLog as_bob env0 (cl_in ''p1'' None) db0 = (Inl (ActionError NOT_FOUND ''Pet not found.''), db0)
   \<and> createPetCareLog as_bob env0 (cl_in ''p2'' (Some ''r1'')) db0 = (Inl (ActionError NOT_FOUND ''Care routine not found.''), db0)
   \<and> listPetCareLogs as_bob ''p1'' db0 = (Inl (ActionError NOT_FOUND ''Pet not found.''), db0)
   \<and> deletePetCareLog as_bob ''l1'' db0 = (Inl (ActionError NOT_FOUND ''Care log not found.''), db0)
   \<and> createVetVisit as_bob env0 (cv_in ''p1'' None) db0 = (Inl (ActionError NOT_FOUND ''Pet not found.''), db0)
   \<and> updateVetVisit as_bob env0 (uv_in ''v1'' None) db0 = (Inl (ActionError NOT_FOUND ''Vet visit not found.''), db0)
   \<and> updateVetVisit as_bob env0 (uv_in ''v2'' (Some ''p1'')) db0 = (Inl (ActionError NOT_FOUND ''Pet not found.''), db0)
   \<and> deleteVetVisit as_bob ''v1'' db0 = (Inl (ActionError NOT_FOUND ''Vet visit not found.''), db0)
   \<and> listVetVisits as_bob ''p1'' db0 = (Inl (ActionError NOT_FOUND ''Pet not found.''), db0)"
proof -
  have u: "requireUser as_bob = Inr bob" by (rule requireUser_as)
  have b: "user_id bob = ''bob''" by (simp add: bob_def)
  show ?thesis
    using not_owned_NOT_FOUND [OF u, where db = db0 and e = env0 and upi = "up_in ''p1''" and dpi = "''p7''"
        and cri = "cr_in ''p1''" and uri = "ur_in ''r1'' None" and uri' = "ur_in ''r2'' (Some ''p1'')"
        and ari = "''r1''" and cli = "cl_in ''p1'' None" and cli' = "cl_in ''p2'' (Some ''r1'')"
        and lli = "''p1''" and dli = "''l1''" and cvi = "cv_in ''p1'' None"
        and uvi = "uv_in ''v1'' None" and uvi' = "uv_in ''v2'' (Some ''p1'')" and dvi = "''v1''"
        and lvi = "''p1''"]
    by (simp add: b db0_owned_by_bob in_defs)
qed

subsection \<open>A log whose routine belongs to another pet\<close>

text \<open>
  C2, as amended. When the caller owns the pet that the input names, the input names a
  non-empty \<^verbatim>\<open>routineId\<close>, the caller owns that routine, and the routine's stored
  \<^verbatim>\<open>petId\<close> differs from the input's, \<^verbatim>\<open>createPetCareLog\<close> fails with
  \<^verbatim>\<open>FORBIDDEN\<close> and the store is unchanged.
\<close>

theorem routine_of_other_pet_FORBIDDEN:
  assumes u: "requireUser c = Inr u"
    and pet: "owns_pet db (user_id u) (cl_petId i)"
    and rid: "cl_routineId i = Some rid" "rid \<noteq> []"
    and own: "owns_routine db (user_id u) rid"
    and diff: "\<forall>r \<in> set (PetCareRoutines db).
                 routine_id r = rid \<and> routine_userId r = user_id u \<longrightarrow> routine_petId r \<noteq> cl_petId i"
  shows "createPetCareLog c e i db =
           (Inl (ActionError FORBIDDEN ''Routine does not belong to this pet.''), db)"
proof -
  from pet obtain p where p: "assertPetOwnership (cl_petId i) (user_id u) db = Inr p"
    by (rule assertPetOwnership_owned)
  from own obtain r where r: "assertRoutineOwnership rid (user_id u) db = Inr r"
    and "r \<in> set (PetCareRoutines db)" "routine_id r = rid" "routine_userId r = user_id u"
    by (rule assertRoutineOwnership_owned)
  with diff have "routine_petId r \<noteq> cl_petId i" by blast
  then have "createPetCareLog_routine i (user_id u) db =
      Some (ActionError FORBIDDEN ''Routine does not belong to this pet.'')"
    by (simp add: createPetCareLog_routine_def rid r)
  then show ?thesis by (simp add: createPetCareLog_def u p)
qed



theorem routine_of_other_pet_FORBIDDEN_witness:
  "createPetCareLog as_alice env0
     \<lparr>cl_petId = ''p3'', cl_routineId = Some ''r1'', cl_logDateTime = None,
      cl_status = Some status_done, cl_notes = None\<rparr> db0
   = (Inl (ActionError FORBIDDEN ''Routine does not belong to this pet.''), db0)"
proof -
  let ?i = "\<lparr>cl_petId = ''p3'', cl_routineId = Some ''r1'', cl_logDateTime = None,
      cl_status = Some status_done, cl_notes = None\<rparr>"
  have u: "requireUser as_alice = Inr alice" by (rule requireUser_as)
  have pet: "owns_pet db0 (user_id alice) (cl_petId ?i)"
    by (simp add: owns_pet_def db0_def alice_def row_defs)
  have rid: "cl_routineId ?i = Some ''r1''" "''r1'' \<noteq> []" by simp_all
  have own: "owns_routine db0 (user_id alice) ''r1''"
    by (simp add: owns_routine_def db0_def alice_def row_defs)
  have diff: "\<forall>r \<in> set (PetCareRoutines db0).
      routine_id r = ''r1'' \<and> routine_userId r = user_id alice \<longrightarrow> routine_petId r \<noteq> cl_petId ?i"
    by (simp add: db0_def alice_def row_defs)
  show ?thesis by (rule routine_of_other_pet_FORBIDDEN [OF u pet rid own diff])
qed

text \<open>
  Without the first two conditions the claim fails. The ownership of the pet is checked
  first: Bob owns routine \<open>r2\<close> of pet \<open>p2\<close>, and a log for Alice's pet \<open>p1\<close> with
  that routine fails with \<^verbatim>\<open>NOT_FOUND\<close>. And the routine is looked up only when
  \<^verbatim>\<open>routineId\<close> is truthy: in a store whose routine has the empty id, a log for
  another pet with \<^verbatim>\<open>routineId\<close> the empty string is inserted.
\<close>

theorem routine_of_other_pet_counterexample:
  "(owns_routine db0 (user_id bob) ''r2''
    \<and> PetCareRoutines db0 = [routine1, routine2]
    \<and> routine_id routine1 = ''r1'' \<and> routine_id routine2 = ''r2''
    \<and> routine_petId routine2 = ''p2''
    \<and> cl_petId (cl_in ''p1'' (Some ''r2'')) = ''p1''
    \<and> cl_routineId (cl_in ''p1'' (Some ''r2'')) = Some ''r2''
    \<and> createPetCareLog as_bob env0 (cl_in ''p1'' (Some ''r2'')) db0
        = (Inl (ActionError NOT_FOUND ''Pet not found.''), db0))
   \<and> (owns_routine db_empty_id (user_id alice) []
    \<and> map routine_id (PetCareRoutines db_empty_id) = [[]]
    \<and> map routine_petId (PetCareRoutines db_empty_id) = [''p1'']
    \<and> fst (createPetCareLog as_alice env0 (cl_in ''p3'' (Some [])) db_empty_id)
        \<noteq> Inl (ActionError FORBIDDEN ''Routine does not belong to this pet.'')
    \<and> length (PetCareLogs (snd (createPetCareLog as_alice env0 (cl_in ''p3'' (Some [])) db_empty_id)))
        = Suc (length (PetCareLogs db_empty_id)))"
  by (simp add: createPetCareLog_def createPetCareLog_routine_def assertPetOwnership_def
      routine_reference_ok_def requireUser_as user_id_as owns_routine_def db_empty_id_def
      db0_def row_defs cl_in_def Let_def)

subsection \<open>Updates of a routine or a visit whose pet is gone\<close>




subsection \<open>Archiving a routine\<close>

lemma archive_step:
  assumes u: "requireUser c = Inr u" and own: "owns_routine d (user_id u) i"
  shows "archivePetCareRoutine c t i d =
        (Inr Success,
         d\<lparr>PetCareRoutines :=
             update_where (\<lambda>r. routine_id r = i \<and> routine_userId r = user_id u)
               (\<lambda>r. r\<lparr>routine_isActive := False, routine_updatedAt := now1 t\<rparr>)
               (PetCareRoutines d)\<rparr>)"
proof -
  from own obtain r where "assertRoutineOwnership i (user_id u) d = Inr r"
    by (rule assertRoutineOwnership_owned)
  then show ?thesis by (simp add: archivePetCareRoutine_def u)
qed

lemma archive_rows_inactive:
  "r \<in> set (update_where m (\<lambda>r. r\<lparr>routine_isActive := False, routine_updatedAt := t\<rparr>) rows)
     \<Longrightarrow> m r \<Longrightarrow> (\<And>x. m (x\<lparr>routine_isActive := False, routine_updatedAt := t\<rparr>) = m x)
     \<Longrightarrow> routine_isActive r = False"
  by (induction rows) (auto simp: update_where_def split: if_splits)

lemma archive_rows_ids:
  "map routine_id (update_where m (\<lambda>r. r\<lparr>routine_isActive := False, routine_updatedAt := t\<rparr>) rows)
     = map routine_id rows"
  by (induction rows) (simp_all add: update_where_def)

lemma update_where_ex:
  assumes "\<And>r. P (f r) = P r"
  shows "(\<exists>r \<in> set (update_where m f rows). P r) = (\<exists>r \<in> set rows. P r)"
  by (induction rows) (simp_all add: update_where_def assms)

lemma owns_routine_after_archive:
  "owns_routine
     (d\<lparr>PetCareRoutines :=
          update_where m (\<lambda>r. r\<lparr>routine_isActive := False, routine_updatedAt := t\<rparr>)
            (PetCareRoutines d)\<rparr>) uid i
   = owns_routine d uid i"
  by (simp add: owns_routine_def update_where_ex)

text \<open>
  C5. For a routine that the caller owns, \<^verbatim>\<open>archivePetCareRoutine\<close> succeeds; afterwards
  every row with that id and owner has \<^verbatim>\<open>isActive = false\<close>, the table holds the same
  ids in the same order (no row is removed), and the caller still owns the routine.
  Archiving again, at any later time, succeeds as well and leaves \<^verbatim>\<open>isActive\<close> false
  and the ids as they were. Nothing is assumed about \<^verbatim>\<open>isActive\<close> beforehand.
\<close>

theorem archive_inactive_row_kept:
  assumes u: "requireUser c = Inr u" and own: "owns_routine db (user_id u) i"
  shows "\<exists>db'. archivePetCareRoutine c e i db = (Inr Success, db')
      \<and> (\<forall>r \<in> set (PetCareRoutines db').
            routine_id r = i \<and> routine_userId r = user_id u \<longrightarrow> routine_isActive r = False)
      \<and> map routine_id (PetCareRoutines db') = map routine_id (PetCareRoutines db)
      \<and> owns_routine db' (user_id u) i
      \<and> (\<exists>db''. archivePetCareRoutine c e' i db' = (Inr Success, db'')
            \<and> (\<forall>r \<in> set (PetCareRoutines db'').
                  routine_id r = i \<and> routine_userId r = user_id u \<longrightarrow> routine_isActive r = False)
            \<and> map routine_id (PetCareRoutines db'') = map routine_id (PetCareRoutines db))"
proof -
  define arch :: "env \<Rightarrow> database \<Rightarrow> database" where "arch t d =
      d\<lparr>PetCareRoutines :=
          update_where (\<lambda>r. routine_id r = i \<and> routine_userId r = user_id u)
            (\<lambda>r. r\<lparr>routine_isActive := False, routine_updatedAt := now1 t\<rparr>)
            (PetCareRoutines d)\<rparr>" for t d
  have step: "archivePetCareRoutine c t i d = (Inr Success, arch t d)"
    if "owns_routine d (user_id u) i" for t d
    unfolding arch_def using u that by (rule archive_step)
  have inactive: "\<forall>r \<in> set (PetCareRoutines (arch t d)).
      routine_id r = i \<and> routine_userId r = user_id u \<longrightarrow> routine_isActive r = False" for t d
  proof (intro ballI impI)
    fix r assume "r \<in> set (PetCareRoutines (arch t d))"
      and m: "routine_id r = i \<and> routine_userId r = user_id u"
    then have "r \<in> set (update_where (\<lambda>r. routine_id r = i \<and> routine_userId r = user_id u)
            (\<lambda>r. r\<lparr>routine_isActive := False, routine_updatedAt := now1 t\<rparr>)
            (PetCareRoutines d))"
      by (simp add: arch_def)
    then show "routine_isActive r = False"
      using m by (rule archive_rows_inactive) simp
  qed
  have ids: "map routine_id (PetCareRoutines (arch t d)) = map routine_id (PetCareRoutines d)"
    for t d
    by (simp add: arch_def archive_rows_ids)
  have owns: "owns_routine (arch t d) (user_id u) i = owns_routine d (user_id u) i" for t d
    unfolding arch_def by (rule owns_routine_after_archive)
  have o': "owns_routine (arch e db) (user_id u) i" using own by (simp only: owns)
  have ids2: "map routine_id (PetCareRoutines (arch e' (arch e db))) = map routine_id (PetCareRoutines db)"
    by (simp only: ids)
  from step [OF own] inactive ids o' step [OF o'] ids2 show ?thesis by blast
qed

theorem archive_inactive_row_kept_witness:
  "routine_isActive routine2 = False
   \<and> archivePetCareRoutine as_bob env0 ''r2'' db0
     = (Inr Success, db0\<lparr>PetCareRoutines := [routine1, routine2\<lparr>routine_updatedAt := 5000\<rparr>]\<rparr>)
   \<and> archivePetCareRoutine as_bob env1 ''r2''
       (db0\<lparr>PetCareRoutines := [routine1, routine2\<lparr>routine_updatedAt := 5000\<rparr>]\<rparr>)
     = (Inr Success, db0\<lparr>PetCareRoutines := [routine1, routine2\<lparr>routine_updatedAt := 6000\<rparr>]\<rparr>)"
proof -
  have u: "requireUser as_bob = Inr bob" by (rule requireUser_as)
  have own: "owns_routine db0 (user_id bob) ''r2''" by (simp add: user_id_as db0_owned_by_bob)
  show ?thesis
    using archive_inactive_row_kept [OF u own, where e = env0 and e' = env1]
    by (simp add: archivePetCareRoutine_def assertRoutineOwnership_def update_where_def
        requireUser_as user_id_as db0_def row_defs env0_def env1_def)
qed

subsection \<open>Listing routines\<close>

lemma and_filters_fun: "and_filters fs = (\<lambda>r. list_all (\<lambda>f. f r) fs)"
  by (rule ext) (simp add: and_filters_def)

lemma listPetCareRoutines_items:
  assumes u: "requireUser c = Inr u"
  shows "listPetCareRoutines c input db =
     (Inr (RoutineItems
        (filter (\<lambda>r. routine_userId r = user_id u
                 \<and> (case input of
                       None \<Rightarrow> True
                     | Some i \<Rightarrow> (case lr_petId i of
                                   None \<Rightarrow> True
                                 | Some p \<Rightarrow> p \<noteq> [] \<longrightarrow> routine_petId r = p))
                 \<and> ((case input of None \<Rightarrow> False | Some i \<Rightarrow> lr_includeInactive i)
                      \<or> routine_isActive r))
           (PetCareRoutines db))
        (length (filter (\<lambda>r. routine_userId r = user_id u
                 \<and> (case input of
                       None \<Rightarrow> True
                     | Some i \<Rightarrow> (case lr_petId i of
                                   None \<Rightarrow> True
                                 | Some p \<Rightarrow> p \<noteq> [] \<longrightarrow> routine_petId r = p))
                 \<and> ((case input of None \<Rightarrow> False | Some i \<Rightarrow> lr_includeInactive i)
                      \<or> routine_isActive r))
           (PetCareRoutines db)))), db)"
proof (cases input)
  case None
  then show ?thesis by (simp add: listPetCareRoutines_def u and_filters_fun Let_def)
next
  case (Some i)
  show ?thesis
  proof (cases "lr_petId i")
    case None
    with Some show ?thesis
      by (cases "lr_includeInactive i") (simp_all add: listPetCareRoutines_def u and_filters_fun Let_def)
  next
    case (Some p)
    with \<open>input = Some i\<close> show ?thesis
      by (cases "lr_includeInactive i"; cases "p = []")
        (simp_all add: listPetCareRoutines_def u and_filters_fun Let_def)
  qed
qed

text \<open>
  C4. For a signed-in caller \<^verbatim>\<open>listPetCareRoutines\<close> returns a list with its length
  and leaves the store alone. When \<^verbatim>\<open>includeInactive\<close> is \<^verbatim>\<open>false\<close> or absent (the
  schema's default), or the whole input is absent, no returned routine has
  \<^verbatim>\<open>isActive = false\<close>. When \<^verbatim>\<open>includeInactive\<close> is \<^verbatim>\<open>true\<close>, every stored routine
  of the caller that matches the \<^verbatim>\<open>petId\<close> of the input, if one is given, is returned,
  active or not, and every returned routine is the caller's; unless the \<^verbatim>\<open>petId\<close> given
  is the empty string, the result is exactly those routines, in stored order.
\<close>

theorem listPetCareRoutines_includeInactive:
  assumes u: "requireUser c = Inr u"
  shows "\<exists>items.
      listPetCareRoutines c (parse_listPetCareRoutines raw) db
        = (Inr (RoutineItems items (length items)), db)
    \<and> ((\<forall>r. raw = Some r \<longrightarrow> raw_includeInactive r \<noteq> Some True) \<longrightarrow>
          (\<forall>x \<in> set items. routine_isActive x))
    \<and> (\<forall>r. raw = Some r \<and> raw_includeInactive r = Some True \<longrightarrow>
          (\<forall>x \<in> set (PetCareRoutines db).
              routine_userId x = user_id u
              \<and> (case raw_petId r of None \<Rightarrow> True | Some p \<Rightarrow> routine_petId x = p)
              \<longrightarrow> x \<in> set items)
        \<and> (\<forall>x \<in> set items. routine_userId x = user_id u)
        \<and> (raw_petId r \<noteq> Some [] \<longrightarrow>
             items = filter (\<lambda>x. routine_userId x = user_id u
                              \<and> (case raw_petId r of None \<Rightarrow> True | Some p \<Rightarrow> routine_petId x = p))
                       (PetCareRoutines db)))"
proof -
  let ?input = "parse_listPetCareRoutines raw"
  let ?items = "filter (\<lambda>r. routine_userId r = user_id u
                 \<and> (case ?input of
                       None \<Rightarrow> True
                     | Some i \<Rightarrow> (case lr_petId i of
                                   None \<Rightarrow> True
                                 | Some p \<Rightarrow> p \<noteq> [] \<longrightarrow> routine_petId r = p))
                 \<and> ((case ?input of None \<Rightarrow> False | Some i \<Rightarrow> lr_includeInactive i)
                      \<or> routine_isActive r))
           (PetCareRoutines db)"
  have 1: "listPetCareRoutines c ?input db = (Inr (RoutineItems ?items (length ?items)), db)"
    by (rule listPetCareRoutines_items [OF u])
  have 2: "(\<forall>r. raw = Some r \<longrightarrow> raw_includeInactive r \<noteq> Some True) \<longrightarrow>
          (\<forall>x \<in> set ?items. routine_isActive x)"
    by (auto simp: parse_listPetCareRoutines_def split: option.splits)
  have 3: "\<forall>r. raw = Some r \<and> raw_includeInactive r = Some True \<longrightarrow>
          (\<forall>x \<in> set (PetCareRoutines db).
              routine_userId x = user_id u
              \<and> (case raw_petId r of None \<Rightarrow> True | Some p \<Rightarrow> routine_petId x = p)
              \<longrightarrow> x \<in> set ?items)
        \<and> (\<forall>x \<in> set ?items. routine_userId x = user_id u)
        \<and> (raw_petId r \<noteq> Some [] \<longrightarrow>
             ?items = filter (\<lambda>x. routine_userId x = user_id u
                              \<and> (case raw_petId r of None \<Rightarrow> True | Some p \<Rightarrow> routine_petId x = p))
                       (PetCareRoutines db))"
  proof (intro allI impI, elim conjE)
    fix r assume r: "raw = Some r" "raw_includeInactive r = Some True"
    show "(\<forall>x \<in> set (PetCareRoutines db).
              routine_userId x = user_id u
              \<and> (case raw_petId r of None \<Rightarrow> True | Some p \<Rightarrow> routine_petId x = p)
              \<longrightarrow> x \<in> set ?items)
        \<and> (\<forall>x \<in> set ?items. routine_userId x = user_id u)
        \<and> (raw_petId r \<noteq> Some [] \<longrightarrow>
             ?items = filter (\<lambda>x. routine_userId x = user_id u
                              \<and> (case raw_petId r of None \<Rightarrow> True | Some p \<Rightarrow> routine_petId x = p))
                       (PetCareRoutines db))"
      by (cases "raw_petId r") (auto simp: parse_listPetCareRoutines_def r intro!: filter_cong)
  qed
  from 1 2 3 show ?thesis by blast
qed



theorem listPetCareRoutines_includeInactive_witness:
  "listPetCareRoutines as_bob (parse_listPetCareRoutines None) db0
     = (Inr (RoutineItems [] 0), db0)
   \<and> listPetCareRoutines as_bob
       (parse_listPetCareRoutines (Some \<lparr>raw_petId = None, raw_includeInactive = None\<rparr>)) db0
     = (Inr (RoutineItems [] 0), db0)
   \<and> listPetCareRoutines as_bob
       (parse_listPetCareRoutines (Some \<lparr>raw_petId = Some ''p2'', raw_includeInactive = Some True\<rparr>)) db0
     = (Inr (RoutineItems [routine2] 1), db0)"
proof -
  have u: "requireUser as_bob = Inr bob" by (rule requireUser_as)
  show ?thesis
    using listPetCareRoutines_includeInactive [OF u, of None db0]
      listPetCareRoutines_includeInactive [OF u, of "Some \<lparr>raw_petId = None, raw_includeInactive = None\<rparr>" db0]
      listPetCareRoutines_includeInactive [OF u, of "Some \<lparr>raw_petId = Some ''p2'', raw_includeInactive = Some True\<rparr>" db0]
    by (simp add: listPetCareRoutines_items [OF u] parse_listPetCareRoutines_def user_id_as
        db0_def row_defs)
qed

subsection \<open>What an update of a visit leaves alone\<close>

lemma update_where_map:
  "(\<And>r. k (u r) = k r) \<Longrightarrow> map k (update_where c u rows) = map k rows"
  by (simp add: update_where_def)

lemma updateVetVisit_updates_createdAt:
  "visit_createdAt (updateVetVisit_updates e i row) = visit_createdAt row"
  by (simp add: updateVetVisit_updates_def)

lemma updateVetVisit_updates_nothing:
  assumes "uv_petId i = None" "uv_visitDate i = None" "uv_clinicName i = None"
    "uv_reason i = None" "uv_diagnosis i = None" "uv_treatment i = None"
    "uv_medications i = None" "uv_followUpDate i = None"
  shows "updateVetVisit_updates e i row = row"
  by (simp add: updateVetVisit_updates_def assms assign_def assign_opt_def)

lemma update_where_id: "(\<And>r. u r = r) \<Longrightarrow> update_where c u rows = rows"
  by (induction rows) (simp_all add: update_where_def)

lemma updateVetVisit_store:
  "snd (updateVetVisit c e i db) = db
   \<or> (\<exists>uid. snd (updateVetVisit c e i db) =
         db\<lparr>VetVisits := update_where (\<lambda>v. visit_id v = uv_id i \<and> visit_userId v = uid)
                           (updateVetVisit_updates e i) (VetVisits db)\<rparr>)"
  by (auto simp: updateVetVisit_def Let_def split: sum.splits list.splits if_splits)

text \<open>
  C8. \<^verbatim>\<open>updateVetVisit\<close> never changes the \<^verbatim>\<open>createdAt\<close> of any visit, whatever its
  outcome; and when the input names the visit and no other field, the store it leaves is
  the store it found: the visit has no column that an update stamps. The statement is
  about the store only.
\<close>

theorem updateVetVisit_frame:
  "map visit_createdAt (VetVisits (snd (updateVetVisit c e i db))) = map visit_createdAt (VetVisits db)
   \<and> (uv_petId i = None \<and> uv_visitDate i = None \<and> uv_clinicName i = None \<and>
      uv_reason i = None \<and> uv_diagnosis i = None \<and> uv_treatment i = None \<and>
      uv_medications i = None \<and> uv_followUpDate i = None \<longrightarrow>
      snd (updateVetVisit c e i db) = db)"
proof (intro conjI impI)
  show "map visit_createdAt (VetVisits (snd (updateVetVisit c e i db)))
      = map visit_createdAt (VetVisits db)"
    using updateVetVisit_store [of c e i db]
    by (auto simp: update_where_map updateVetVisit_updates_createdAt)
next
  assume "uv_petId i = None \<and> uv_visitDate i = None \<and> uv_clinicName i = None \<and>
      uv_reason i = None \<and> uv_diagnosis i = None \<and> uv_treatment i = None \<and>
      uv_medications i = None \<and> uv_followUpDate i = None"
  then have "updateVetVisit_updates e i row = row" for row
    by (simp add: updateVetVisit_updates_nothing)
  then have "update_where m (updateVetVisit_updates e i) rows = rows" for m rows
    by (rule update_where_id)
  with updateVetVisit_store [of c e i db] show "snd (updateVetVisit c e i db) = db"
    by auto
qed

theorem updateVetVisit_frame_witness:
  "snd (updateVetVisit as_alice env0 (uv_nothing ''v1'') db0) = db0
   \<and> fst (updateVetVisit as_alice env0 (uv_in ''v1'' (Some ''p3'')) db0) = Inr Success
   \<and> map visit_createdAt (VetVisits (snd (updateVetVisit as_alice env0 (uv_in ''v1'' (Some ''p3'')) db0)))
       = [131, 231]"
proof -
  have "fst (updateVetVisit as_alice env0 (uv_in ''v1'' (Some ''p3'')) db0) = Inr Success"
    by (simp add: updateVetVisit_def updateVetVisit_no_values_def requireUser_as user_id_as
        assertPetOwnership_def db0_def row_defs uv_in_def Let_def)
  moreover have "map visit_createdAt (VetVisits db0) = [131, 231]"
    by (simp add: db0_def row_defs)
  ultimately show ?thesis
    using updateVetVisit_frame [of as_alice env0 "uv_nothing ''v1''" db0]
      updateVetVisit_frame [of as_alice env0 "uv_in ''v1'' (Some ''p3'')" db0]
    by (simp add: uv_nothing_def)
qed

subsection \<open>The date of a new visit\<close>

text \<open>
  C9. For a caller who owns the pet, \<^verbatim>\<open>createVetVisit\<close> succeeds and appends the visit
  it returns. With no \<^verbatim>\<open>visitDate\<close> in the input the stored \<^verbatim>\<open>visitDate\<close> is the
  first reading of the clock in the call and \<^verbatim>\<open>createdAt\<close> the second, so the two
  differ by no more than the two readings do; with a \<^verbatim>\<open>Date\<close> the stored value is that
  date, and with a (non-empty) date-time string it is the date \<^verbatim>\<open>new Date\<close> makes of
  the string.
\<close>

theorem createVetVisit_visitDate:
  assumes u: "requireUser c = Inr u" and own: "owns_pet db (user_id u) (cv_petId i)"
  shows "\<exists>v. createVetVisit c e i db = (Inr (VisitData v), db\<lparr>VetVisits := VetVisits db @ [v]\<rparr>)
    \<and> (cv_visitDate i = None \<longrightarrow>
          visit_visitDate v = now1 e \<and> visit_createdAt v = now2 e
          \<and> (\<forall>tol. \<bar>now2 e - now1 e\<bar> \<le> tol \<longrightarrow> \<bar>visit_createdAt v - visit_visitDate v\<bar> \<le> tol))
    \<and> (\<forall>d. cv_visitDate i = Some (DateObj d) \<longrightarrow> visit_visitDate v = d)
    \<and> (\<forall>s. cv_visitDate i = Some (DateString s) \<and> s \<noteq> [] \<longrightarrow> visit_visitDate v = Date_parse e s)"
proof -
  from own obtain p where p: "assertPetOwnership (cv_petId i) (user_id u) db = Inr p"
    by (rule assertPetOwnership_owned)
  show ?thesis
    by (cases "cv_visitDate i") (auto simp: createVetVisit_def u p Let_def)
qed

theorem createVetVisit_visitDate_witness:
  "map visit_visitDate (VetVisits (snd (createVetVisit as_bob env0 (cv_in ''p2'' None) db0)))
     = [130, 230, 5000]
   \<and> map visit_createdAt (VetVisits (snd (createVetVisit as_bob env0 (cv_in ''p2'' None) db0)))
     = [131, 231, 5003]
   \<and> map visit_visitDate
       (VetVisits (snd (createVetVisit as_bob env0 (cv_in ''p2'' (Some (DateObj 777))) db0)))
     = [130, 230, 777]
   \<and> map visit_visitDate
       (VetVisits (snd (createVetVisit as_bob env0
          (cv_in ''p2'' (Some (DateString ''2024-05-01T10:00:00Z''))) db0)))
     = [130, 230, 20]"
proof -
  have u: "requireUser as_bob = Inr bob" by (rule requireUser_as)
  have own: "owns_pet db0 (user_id bob) (cv_petId (cv_in ''p2'' d))" for d
    by (simp add: cv_in_def user_id_as db0_owned_by_bob)
  have v: "map visit_visitDate (VetVisits db0) = [130, 230]"
    "map visit_createdAt (VetVisits db0) = [131, 231]"
    by (simp_all add: db0_def row_defs)
  show ?thesis
    using createVetVisit_visitDate [OF u own [of None], where e = env0]
      createVetVisit_visitDate [OF u own [of "Some (DateObj 777)"], where e = env0]
      createVetVisit_visitDate [OF u own [of "Some (DateString ''2024-05-01T10:00:00Z'')"], where e = env0]
    by (auto simp: cv_in_def env0_def v)
qed

subsection \<open>Care logs are appended and deleted, never rewritten\<close>

lemma logs_unchanged:
  "PetCareLogs (snd (createPet c e i1 db)) = PetCareLogs db"
  "PetCareLogs (snd (updatePet c e i2 db)) = PetCareLogs db"
  "PetCareLogs (snd (deletePet c s db)) = PetCareLogs db"
  "PetCareLogs (snd (listPets c db)) = PetCareLogs db"
  "PetCareLogs (snd (createPetCareRoutine c e i3 db)) = PetCareLogs db"
  "PetCareLogs (snd (updatePetCareRoutine c e i4 db)) = PetCareLogs db"
  "PetCareLogs (snd (archivePetCareRoutine c e s db)) = PetCareLogs db"
  "PetCareLogs (snd (listPetCareRoutines c i5 db)) = PetCareLogs db"
  "PetCareLogs (snd (listPetCareLogs c s db)) = PetCareLogs db"
  "PetCareLogs (snd (createVetVisit c e i6 db)) = PetCareLogs db"
  "PetCareLogs (snd (updateVetVisit c e i7 db)) = PetCareLogs db"
  "PetCareLogs (snd (deleteVetVisit c s db)) = PetCareLogs db"
  "PetCareLogs (snd (listVetVisits c s db)) = PetCareLogs db"
  by (simp_all add: createPet_def updatePet_def deletePet_def listPets_def
        createPetCareRoutine_def updatePetCareRoutine_def archivePetCareRoutine_def
        listPetCareRoutines_def listPetCareLogs_def
        createVetVisit_def updateVetVisit_def deleteVetVisit_def listVetVisits_def Let_def
      split: sum.splits list.splits if_splits)

lemma logs_createPetCareLog:
  "PetCareLogs (snd (createPetCareLog c e i db)) = PetCareLogs db
   \<or> (\<exists>l. PetCareLogs (snd (createPetCareLog c e i db)) = PetCareLogs db @ [l])"
  by (simp add: createPetCareLog_def Let_def split: sum.splits option.splits if_splits)

lemma logs_deletePetCareLog:
  "\<exists>P. PetCareLogs (snd (deletePetCareLog c i db)) = filter P (PetCareLogs db)
      \<and> (\<forall>l. log_id l \<noteq> i \<longrightarrow> P l)"
proof (cases "\<exists>u. fst (deletePetCareLog c i db) = Inr u")
  case True
  then obtain u where u: "requireUser c = Inr u"
    by (auto simp: deletePetCareLog_def split: sum.splits)
  from True have "PetCareLogs (snd (deletePetCareLog c i db)) =
      filter (\<lambda>l. \<not> (log_id l = i \<and> log_userId l = user_id u)) (PetCareLogs db)"
    by (auto simp: deletePetCareLog_def u delete_where_def split: list.splits)
  then show ?thesis by blast
next
  case False
  then have "PetCareLogs (snd (deletePetCareLog c i db)) = filter (\<lambda>l. True) (PetCareLogs db)"
    by (auto simp: deletePetCareLog_def split: sum.splits list.splits)
  then show ?thesis by blast
qed

lemma deletePetCareLog_owned:
  assumes u: "requireUser c = Inr u" and own: "owns_log db (user_id u) i"
  shows "deletePetCareLog c i db =
      (Inr Success,
       db\<lparr>PetCareLogs := filter (\<lambda>l. \<not> (log_id l = i \<and> log_userId l = user_id u)) (PetCareLogs db)\<rparr>)"
proof -
  from own have "\<exists>l \<in> set (PetCareLogs db). log_id l = i \<and> log_userId l = user_id u"
    by (simp add: owns_log_def)
  then obtain y ys where
    "filter (\<lambda>l. log_id l = i \<and> log_userId l = user_id u) (PetCareLogs db) = y # ys"
    by (rule filter_Cons_case)
  then show ?thesis by (simp add: deletePetCareLog_def u delete_where_def)
qed

lemma deletePetCareLog_not_owned:
  assumes "\<forall>u. requireUser c = Inr u \<longrightarrow> \<not> owns_log db (user_id u) i"
  shows "snd (deletePetCareLog c i db) = db"
proof (cases "requireUser c")
  case (Inl err)
  then show ?thesis by (simp add: deletePetCareLog_def)
next
  case (Inr u)
  with assms have "\<not> owns_log db (user_id u) i" by simp
  then have "filter (\<lambda>l. log_id l = i \<and> log_userId l = user_id u) (PetCareLogs db) = []"
    by (auto simp: owns_log_def filter_empty_conv)
  with Inr show ?thesis by (simp add: deletePetCareLog_def)
qed

text \<open>
  C7. The catalogue has no update of a care log, and no request rewrites a stored log.
  A request other than \<^verbatim>\<open>createPetCareLog\<close> and \<^verbatim>\<open>deletePetCareLog\<close> leaves the
  table of logs as it is; \<^verbatim>\<open>createPetCareLog\<close> leaves it as it is or appends one row to
  it; \<^verbatim>\<open>deletePetCareLog\<close> leaves a selection of the stored rows, in their order, that
  keeps every row with another id. When the caller owns the log, \<^verbatim>\<open>deletePetCareLog\<close>
  succeeds and the table afterwards is the table before without the rows that carry this
  id and the caller's \<^verbatim>\<open>userId\<close>, the rest of the store being as it was; when the
  caller does not own it, the store is unchanged.
\<close>

theorem care_logs_immutable:
  "((\<forall>i. req \<noteq> CreatePetCareLog i) \<and> (\<forall>i. req \<noteq> DeletePetCareLog i) \<longrightarrow>
      PetCareLogs (snd (server c e req db)) = PetCareLogs db)
   \<and> (\<forall>i. req = CreatePetCareLog i \<longrightarrow>
        PetCareLogs (snd (server c e req db)) = PetCareLogs db
        \<or> (\<exists>l. PetCareLogs (snd (server c e req db)) = PetCareLogs db @ [l]))
   \<and> (\<forall>i. req = DeletePetCareLog i \<longrightarrow>
        (\<exists>P. PetCareLogs (snd (server c e req db)) = filter P (PetCareLogs db)
             \<and> (\<forall>l. log_id l \<noteq> i \<longrightarrow> P l))
        \<and> (\<forall>u. requireUser c = Inr u \<and> owns_log db (user_id u) i \<longrightarrow>
              server c e req db =
                (Inr Success,
                 db\<lparr>PetCareLogs :=
                      filter (\<lambda>l. \<not> (log_id l = i \<and> log_userId l = user_id u)) (PetCareLogs db)\<rparr>))
        \<and> ((\<forall>u. requireUser c = Inr u \<longrightarrow> \<not> owns_log db (user_id u) i) \<longrightarrow>
              snd (server c e req db) = db))"
proof (cases req)
  case (CreatePetCareLog i)
  then show ?thesis using logs_createPetCareLog [of c e i db] by simp
next
  case (DeletePetCareLog i)
  then show ?thesis
    using logs_deletePetCareLog [of c i db]
    by (simp add: deletePetCareLog_owned deletePetCareLog_not_owned)
qed (simp_all add: logs_unchanged)

theorem care_logs_immutable_witness:
  "PetCareLogs (snd (server as_alice env0 (UpdatePet (up_in ''p1'')) db0)) = [log1]
   \<and> PetCareLogs (snd (server as_alice env0 (DeletePet ''p3'') db0)) = [log1]
   \<and> butlast (PetCareLogs (snd (server as_alice env0 (CreatePetCareLog (cl_in ''p1'' (Some ''r1''))) db0)))
       = [log1]
   \<and> length (PetCareLogs (snd (server as_alice env0 (CreatePetCareLog (cl_in ''p1'' (Some ''r1''))) db0)))
       = 2
   \<and> server as_alice env0 (DeletePetCareLog ''l1'') (db0\<lparr>PetCareLogs := [log1, log1\<lparr>log_id := ''l2''\<rparr>]\<rparr>)
       = (Inr Success, db0\<lparr>PetCareLogs := [log1\<lparr>log_id := ''l2''\<rparr>]\<rparr>)
   \<and> server as_bob env0 (DeletePetCareLog ''l1'') db0
       = (Inl (ActionError NOT_FOUND ''Care log not found.''), db0)"
proof -
  have u: "requireUser as_alice = Inr alice" "requireUser as_bob = Inr bob"
    by (rule requireUser_as)+
  have 1: "PetCareLogs db0 = [log1]" by (simp add: db0_def)
  have 2: "length (PetCareLogs (snd (server as_alice env0 (CreatePetCareLog (cl_in ''p1'' (Some ''r1''))) db0)))
       = 2"
    by (simp add: createPetCareLog_def createPetCareLog_routine_def routine_reference_ok_def
        assertPetOwnership_def assertRoutineOwnership_def requireUser_as user_id_as db0_def
        row_defs cl_in_def Let_def)
  have 3: "owns_log (db0\<lparr>PetCareLogs := [log1, log1\<lparr>log_id := ''l2''\<rparr>]\<rparr>) (user_id alice) ''l1''"
    by (simp add: owns_log_def user_id_as row_defs)
  have 4: "filter (\<lambda>l. \<not> (log_id l = ''l1'' \<and> log_userId l = user_id alice))
      [log1, log1\<lparr>log_id := ''l2''\<rparr>] = [log1\<lparr>log_id := ''l2''\<rparr>]"
    by (simp add: user_id_as row_defs)
  have 5: "server as_bob env0 (DeletePetCareLog ''l1'') db0
       = (Inl (ActionError NOT_FOUND ''Care log not found.''), db0)"
    by (simp add: deletePetCareLog_def requireUser_as user_id_as db0_def row_defs)
  have a: "PetCareLogs (snd (server as_alice env0 (UpdatePet (up_in ''p1'')) db0)) = [log1]"
    using care_logs_immutable [of "UpdatePet (up_in ''p1'')" as_alice env0 db0] 1
    by (simp del: server.simps)
  have b: "PetCareLogs (snd (server as_alice env0 (DeletePet ''p3'') db0)) = [log1]"
    using care_logs_immutable [of "DeletePet ''p3''" as_alice env0 db0] 1
    by (simp del: server.simps)
  have "PetCareLogs (snd (server as_alice env0 (CreatePetCareLog (cl_in ''p1'' (Some ''r1''))) db0))
        = PetCareLogs db0
      \<or> (\<exists>l. PetCareLogs (snd (server as_alice env0 (CreatePetCareLog (cl_in ''p1'' (Some ''r1''))) db0))
        = PetCareLogs db0 @ [l])"
    using care_logs_immutable [of "CreatePetCareLog (cl_in ''p1'' (Some ''r1''))" as_alice env0 db0]
    by (simp del: server.simps)
  with 1 2 have c: "butlast (PetCareLogs (snd (server as_alice env0
      (CreatePetCareLog (cl_in ''p1'' (Some ''r1''))) db0))) = [log1]"
    by (auto simp del: server.simps)
  have "server as_alice env0 (DeletePetCareLog ''l1'') (db0\<lparr>PetCareLogs := [log1, log1\<lparr>log_id := ''l2''\<rparr>]\<rparr>)
      = (Inr Success,
         db0\<lparr>PetCareLogs := [log1, log1\<lparr>log_id := ''l2''\<rparr>]\<rparr>
           \<lparr>PetCareLogs := filter (\<lambda>l. \<not> (log_id l = ''l1'' \<and> log_userId l = user_id alice))
              (PetCareLogs (db0\<lparr>PetCareLogs := [log1, log1\<lparr>log_id := ''l2''\<rparr>]\<rparr>))\<rparr>)"
    using care_logs_immutable [of "DeletePetCareLog ''l1''" as_alice env0
        "db0\<lparr>PetCareLogs := [log1, log1\<lparr>log_id := ''l2''\<rparr>]\<rparr>"] u(1) 3
    by (simp del: server.simps)
  then have d: "server as_alice env0 (DeletePetCareLog ''l1'') (db0\<lparr>PetCareLogs := [log1, log1\<lparr>log_id := ''l2''\<rparr>]\<rparr>)
       = (Inr Success, db0\<lparr>PetCareLogs := [log1\<lparr>log_id := ''l2''\<rparr>]\<rparr>)"
    by (simp add: user_id_as row_defs del: server.simps)
  from a b c 2 d 5 show ?thesis by (simp del: server.simps)
qed



subsection \<open>Partial updates, applied once and twice\<close>

lemma assign_twice: "assign v (assign v old) = assign v old"
  by (simp add: assign_def split: option.splits)

lemma assign_opt_twice: "assign_opt v (assign_opt v old) = assign_opt v old"
  by (simp add: assign_opt_def split: option.splits)

lemma parseDateInput_same:
  "Date_parse e' = Date_parse e \<Longrightarrow> parseDateInput e' x = parseDateInput e x"
  by (cases "(e', x)" rule: parseDateInput.cases) simp_all

lemma update_where_twice:
  assumes "\<And>r. c r \<Longrightarrow> c (f r)" "\<And>r. c r \<Longrightarrow> g (f r) = h (f r)"
  shows "update_where c g (update_where c f rows) = update_where c h (update_where c f rows)"
  by (induction rows) (simp_all add: update_where_def assms)

lemma update_where_frame:
  assumes "\<And>r. K r (f r)"
  shows "list_all2 (\<lambda>old new. if c old then K old new else new = old) rows (update_where c f rows)"
  by (induction rows) (simp_all add: update_where_def assms)

lemma filter_update_where:
  assumes "\<And>r. c (f r) = c r"
  shows "filter c (update_where c f rows) = map f (filter c rows)"
  by (induction rows) (simp_all add: update_where_def assms)

lemma updatePet_updates_kept: "pet_absent_kept i r (updatePet_updates e i r)"
  by (simp add: pet_absent_kept_def updatePet_updates_def assign_def assign_opt_def)

lemma updatePet_updates_twice:
  assumes "Date_parse e' = Date_parse e"
  shows "updatePet_updates e' i (updatePet_updates e i r) =
         (updatePet_updates e i r)\<lparr>pet_updatedAt := now1 e'\<rparr>"
  by (cases "up_dateOfBirth i")
    (simp_all add: updatePet_updates_def assign_twice assign_opt_twice
      parseDateInput_same [OF assms])

lemma updatePet_owned:
  assumes u: "requireUser c = Inr u" and own: "owns_pet db (user_id u) (up_id i)"
  shows "updatePet c e i db =
      (Inr Success,
       db\<lparr>Pets := update_where (\<lambda>p. pet_id p = up_id i \<and> pet_userId p = user_id u)
                    (updatePet_updates e i) (Pets db)\<rparr>)"
proof -
  from own obtain p where "assertPetOwnership (up_id i) (user_id u) db = Inr p"
    by (rule assertPetOwnership_owned)
  then show ?thesis by (simp add: updatePet_def u)
qed

lemma updatePet_updates_key:
  "pet_id (updatePet_updates e i r) = pet_id r" "pet_userId (updatePet_updates e i r) = pet_userId r"
  by (simp_all add: updatePet_updates_def)

lemma owns_pet_update_where:
  assumes "\<And>r. pet_id (f r) = pet_id r" "\<And>r. pet_userId (f r) = pet_userId r"
  shows "owns_pet (db\<lparr>Pets := update_where m f (Pets db)\<rparr>) uid i = owns_pet db uid i"
  by (simp add: owns_pet_def update_where_ex assms)

lemma updatePet_twice:
  assumes u: "requireUser c = Inr u" and e': "Date_parse e' = Date_parse e"
    and own: "owns_pet db (user_id u) (up_id i)"
  shows "\<exists>db1 db2.
      updatePet c e i db = (Inr Success, db1) \<and> updatePet c e' i db1 = (Inr Success, db2)
    \<and> list_all2 (\<lambda>old new. if pet_id old = up_id i \<and> pet_userId old = user_id u
                              then pet_absent_kept i old new else new = old) (Pets db) (Pets db1)
    \<and> db1 = db\<lparr>Pets := Pets db1\<rparr>
    \<and> db2 = db1\<lparr>Pets := update_where (\<lambda>p. pet_id p = up_id i \<and> pet_userId p = user_id u)
                             (\<lambda>p. p\<lparr>pet_updatedAt := now1 e'\<rparr>) (Pets db1)\<rparr>"
proof -
  let ?m = "\<lambda>p. pet_id p = up_id i \<and> pet_userId p = user_id u"
  define db1 where "db1 = db\<lparr>Pets := update_where ?m (updatePet_updates e i) (Pets db)\<rparr>"
  have 1: "updatePet c e i db = (Inr Success, db1)"
    unfolding db1_def by (rule updatePet_owned [OF u own])
  have own1: "owns_pet db1 (user_id u) (up_id i)"
    unfolding db1_def using own by (simp add: owns_pet_update_where updatePet_updates_key)
  have P1: "Pets db1 = update_where ?m (updatePet_updates e i) (Pets db)"
    by (simp add: db1_def)
  have tw: "update_where ?m (updatePet_updates e' i) (Pets db1) =
      update_where ?m (\<lambda>p. p\<lparr>pet_updatedAt := now1 e'\<rparr>) (Pets db1)"
    unfolding P1
    by (rule update_where_twice) (simp_all add: updatePet_updates_key updatePet_updates_twice [OF e'])
  have 2: "updatePet c e' i db1 =
      (Inr Success, db1\<lparr>Pets := update_where ?m (\<lambda>p. p\<lparr>pet_updatedAt := now1 e'\<rparr>) (Pets db1)\<rparr>)"
    using updatePet_owned [OF u own1, of e'] by (simp only: tw)
  have 3: "list_all2 (\<lambda>old new. if ?m old then pet_absent_kept i old new else new = old)
      (Pets db) (Pets db1)"
    unfolding P1 by (rule update_where_frame) (rule updatePet_updates_kept)
  have 4: "db1 = db\<lparr>Pets := Pets db1\<rparr>" by (simp add: db1_def)
  from 1 2 3 4 show ?thesis by blast
qed


lemma updatePetCareRoutine_updates_kept:
  "routine_absent_kept i r (updatePetCareRoutine_updates e i r)"
  by (simp add: routine_absent_kept_def updatePetCareRoutine_updates_def assign_def assign_opt_def)

lemma updatePetCareRoutine_updates_twice:
  assumes "JSON_stringify e' = JSON_stringify e"
  shows "updatePetCareRoutine_updates e' i (updatePetCareRoutine_updates e i r) =
         (updatePetCareRoutine_updates e i r)\<lparr>routine_updatedAt := now1 e'\<rparr>"
  by (cases "ur_daysOfWeek i")
    (simp_all add: updatePetCareRoutine_updates_def assign_twice assign_opt_twice assms)

lemma updatePetCareRoutine_updates_key:
  "routine_id (updatePetCareRoutine_updates e i r) = routine_id r"
  "routine_userId (updatePetCareRoutine_updates e i r) = routine_userId r"
  by (simp_all add: updatePetCareRoutine_updates_def)

lemma updatePetCareRoutine_updates_petId:
  "routine_petId (updatePetCareRoutine_updates e i r) =
     (case ur_petId i of None \<Rightarrow> routine_petId r | Some p \<Rightarrow> p)"
  by (simp add: updatePetCareRoutine_updates_def assign_def)


lemma updatePetCareRoutine_fails:
  assumes u: "requireUser c = Inr u" and "fst (updatePetCareRoutine c e i db) = Inl err"
  shows "updatePetCareRoutine c e2 i db = (Inl err, db)"
  using assms(2)
  by (auto simp: updatePetCareRoutine_def u Let_def split: sum.splits)

lemma updatePetCareRoutine_succeeds:
  assumes u: "requireUser c = Inr u" and "fst (updatePetCareRoutine c e i db) = Inr x"
  obtains r0 rs p0 where
    "filter (\<lambda>r. routine_id r = ur_id i \<and> routine_userId r = user_id u) (PetCareRoutines db) = r0 # rs"
    "assertPetOwnership (case ur_petId i of None \<Rightarrow> routine_petId r0 | Some p \<Rightarrow> p) (user_id u) db
       = Inr p0"
  using assms(2)
  by (auto simp: updatePetCareRoutine_def assertRoutineOwnership_def u Let_def
      split: sum.splits list.splits)

lemma updatePetCareRoutine_twice:
  assumes u: "requireUser c = Inr u" and e': "JSON_stringify e' = JSON_stringify e"
    and f: "filter (\<lambda>r. routine_id r = ur_id i \<and> routine_userId r = user_id u) (PetCareRoutines db)
              = r0 # rs"
    and p: "assertPetOwnership (case ur_petId i of None \<Rightarrow> routine_petId r0 | Some p \<Rightarrow> p)
              (user_id u) db = Inr p0"
  shows "\<exists>db1 db2.
      updatePetCareRoutine c e i db = (Inr Success, db1)
    \<and> updatePetCareRoutine c e' i db1 = (Inr Success, db2)
    \<and> db1 = db\<lparr>PetCareRoutines :=
                  update_where (\<lambda>r. routine_id r = ur_id i \<and> routine_userId r = user_id u)
                    (updatePetCareRoutine_updates e i) (PetCareRoutines db)\<rparr>
    \<and> db2 = db1\<lparr>PetCareRoutines :=
                  update_where (\<lambda>r. routine_id r = ur_id i \<and> routine_userId r = user_id u)
                    (\<lambda>r. r\<lparr>routine_updatedAt := now1 e'\<rparr>) (PetCareRoutines db1)\<rparr>"
proof -
  let ?m = "\<lambda>r. routine_id r = ur_id i \<and> routine_userId r = user_id u"
  let ?f = "updatePetCareRoutine_updates e i"
  define db1 where "db1 = db\<lparr>PetCareRoutines := update_where ?m ?f (PetCareRoutines db)\<rparr>"
  have 1: "updatePetCareRoutine c e i db = (Inr Success, db1)"
    by (simp add: updatePetCareRoutine_def u assertRoutineOwnership_def f p db1_def)
  have R1: "PetCareRoutines db1 = update_where ?m ?f (PetCareRoutines db)"
    by (simp add: db1_def)
  have f1: "filter ?m (PetCareRoutines db1) = ?f r0 # map ?f rs"
    unfolding R1 by (simp add: filter_update_where updatePetCareRoutine_updates_key f)
  have same: "(case ur_petId i of None \<Rightarrow> routine_petId (?f r0) | Some p \<Rightarrow> p) =
      (case ur_petId i of None \<Rightarrow> routine_petId r0 | Some p \<Rightarrow> p)"
    by (simp add: updatePetCareRoutine_updates_petId split: option.splits)
  have p1: "assertPetOwnership (case ur_petId i of None \<Rightarrow> routine_petId (?f r0) | Some p \<Rightarrow> p)
              (user_id u) db1 = Inr p0"
    unfolding same using p by (simp add: assertPetOwnership_def db1_def)
  have tw: "update_where ?m (updatePetCareRoutine_updates e' i) (PetCareRoutines db1) =
      update_where ?m (\<lambda>r. r\<lparr>routine_updatedAt := now1 e'\<rparr>) (PetCareRoutines db1)"
    unfolding R1
    by (rule update_where_twice)
      (simp_all add: updatePetCareRoutine_updates_key updatePetCareRoutine_updates_twice [OF e'])
  have 2: "updatePetCareRoutine c e' i db1 =
      (Inr Success, db1\<lparr>PetCareRoutines :=
          update_where ?m (\<lambda>r. r\<lparr>routine_updatedAt := now1 e'\<rparr>) (PetCareRoutines db1)\<rparr>)"
    by (simp add: updatePetCareRoutine_def u assertRoutineOwnership_def f1 p1 tw)
  from 1 2 show ?thesis unfolding db1_def by blast
qed

lemma updateVetVisit_updates_kept: "visit_absent_kept i r (updateVetVisit_updates e i r)"
  by (simp add: visit_absent_kept_def updateVetVisit_updates_def assign_def assign_opt_def)

lemma updateVetVisit_updates_twice:
  assumes "Date_parse e' = Date_parse e"
  shows "updateVetVisit_updates e' i (updateVetVisit_updates e i r) = updateVetVisit_updates e i r"
  by (cases "uv_visitDate i"; cases "uv_followUpDate i")
    (simp_all add: updateVetVisit_updates_def assign_twice assign_opt_twice
      parseDateInput_same [OF assms])

lemma updateVetVisit_updates_key:
  "visit_id (updateVetVisit_updates e i r) = visit_id r"
  "visit_userId (updateVetVisit_updates e i r) = visit_userId r"
  by (simp_all add: updateVetVisit_updates_def)

lemma updateVetVisit_updates_petId:
  "visit_petId (updateVetVisit_updates e i r) =
     (case uv_petId i of None \<Rightarrow> visit_petId r | Some p \<Rightarrow> p)"
  by (simp add: updateVetVisit_updates_def assign_def)

lemma update_where_twice_same:
  assumes "\<And>r. c r \<Longrightarrow> c (f r)" "\<And>r. c r \<Longrightarrow> g (f r) = f r"
  shows "update_where c g (update_where c f rows) = update_where c f rows"
  by (induction rows) (simp_all add: update_where_def assms)


lemma updateVetVisit_no_values_same:
  assumes "Date_parse e' = Date_parse e"
  shows "updateVetVisit_no_values e' i = updateVetVisit_no_values e i"
proof -
  have "parseDateInput e' x = parseDateInput e x" for x
    by (rule parseDateInput_same [OF assms])
  then show ?thesis by (simp add: updateVetVisit_no_values_def split: option.splits)
qed

lemma updateVetVisit_fails:
  assumes u: "requireUser c = Inr u" and e': "Date_parse e' = Date_parse e"
    and "fst (updateVetVisit c e i db) = Inl err"
  shows "updateVetVisit c e' i db = (Inl err, db)"
  using assms(3)
  by (auto simp: updateVetVisit_def u Let_def updateVetVisit_no_values_same [OF e']
      split: sum.splits list.splits if_splits)

lemma updateVetVisit_succeeds:
  assumes u: "requireUser c = Inr u" and "fst (updateVetVisit c e i db) = Inr x"
  obtains v0 vs p0 where
    "filter (\<lambda>v. visit_id v = uv_id i \<and> visit_userId v = user_id u) (VetVisits db) = v0 # vs"
    "assertPetOwnership (case uv_petId i of None \<Rightarrow> visit_petId v0 | Some p \<Rightarrow> p) (user_id u) db
       = Inr p0"
    "\<not> updateVetVisit_no_values e i"
  using assms(2)
  by (auto simp: updateVetVisit_def u Let_def split: sum.splits list.splits if_splits)

lemma updateVetVisit_twice:
  assumes u: "requireUser c = Inr u" and e': "Date_parse e' = Date_parse e"
    and f: "filter (\<lambda>v. visit_id v = uv_id i \<and> visit_userId v = user_id u) (VetVisits db) = v0 # vs"
    and p: "assertPetOwnership (case uv_petId i of None \<Rightarrow> visit_petId v0 | Some p \<Rightarrow> p)
              (user_id u) db = Inr p0"
    and nv: "\<not> updateVetVisit_no_values e i"
  shows "\<exists>db1.
      updateVetVisit c e i db = (Inr Success, db1)
    \<and> updateVetVisit c e' i db1 = (Inr Success, db1)
    \<and> db1 = db\<lparr>VetVisits :=
                  update_where (\<lambda>v. visit_id v = uv_id i \<and> visit_userId v = user_id u)
                    (updateVetVisit_updates e i) (VetVisits db)\<rparr>"
proof -
  let ?m = "\<lambda>v. visit_id v = uv_id i \<and> visit_userId v = user_id u"
  let ?f = "updateVetVisit_updates e i"
  define db1 where "db1 = db\<lparr>VetVisits := update_where ?m ?f (VetVisits db)\<rparr>"
  have 1: "updateVetVisit c e i db = (Inr Success, db1)"
    by (simp add: updateVetVisit_def u f p nv db1_def)
  have V1: "VetVisits db1 = update_where ?m ?f (VetVisits db)"
    by (simp add: db1_def)
  have f1: "filter ?m (VetVisits db1) = ?f v0 # map ?f vs"
    unfolding V1 by (simp add: filter_update_where updateVetVisit_updates_key f)
  have same: "(case uv_petId i of None \<Rightarrow> visit_petId (?f v0) | Some p \<Rightarrow> p) =
      (case uv_petId i of None \<Rightarrow> visit_petId v0 | Some p \<Rightarrow> p)"
    by (simp add: updateVetVisit_updates_petId split: option.splits)
  have p1: "assertPetOwnership (case uv_petId i of None \<Rightarrow> visit_petId (?f v0) | Some p \<Rightarrow> p)
              (user_id u) db1 = Inr p0"
    unfolding same using p by (simp add: assertPetOwnership_def db1_def)
  have tw: "update_where ?m (updateVetVisit_updates e' i) (VetVisits db1) = VetVisits db1"
    unfolding V1
    by (rule update_where_twice_same)
      (simp_all add: updateVetVisit_updates_key updateVetVisit_updates_twice [OF e'])
  have nv': "\<not> updateVetVisit_no_values e' i"
    using nv by (simp add: updateVetVisit_no_values_same [OF e'])
  have 2: "updateVetVisit c e' i db1 = (Inr Success, db1)"
    by (simp add: updateVetVisit_def u f1 p1 tw nv')
  from 1 2 show ?thesis unfolding db1_def by blast
qed

lemma update_where_stamp_pet:
  "update_where m (\<lambda>p. p\<lparr>pet_updatedAt := now1 e\<rparr>) (update_where m (updatePet_updates e i) rows)
     = update_where m (updatePet_updates e i) rows"
  by (induction rows) (simp_all add: update_where_def updatePet_updates_def)

lemma update_where_stamp_routine:
  "update_where m (\<lambda>r. r\<lparr>routine_updatedAt := now1 e\<rparr>)
       (update_where m (updatePetCareRoutine_updates e i) rows)
     = update_where m (updatePetCareRoutine_updates e i) rows"
  by (induction rows) (simp_all add: update_where_def updatePetCareRoutine_updates_def)

text \<open>
  C3, as amended. Let the caller own the pet (the routine and the pet that its update
  checks; the visit and the pet that its update checks), and let a second call read the
  same built-ins. Then \<^verbatim>\<open>updatePet\<close>, \<^verbatim>\<open>updatePetCareRoutine\<close> and
  \<^verbatim>\<open>updateVetVisit\<close> succeed, and so does the same update applied again. After the first
  call every row other than the target is as it was, the other tables are as they were,
  and in the target row every column that the input does not set keeps its value, as do
  \<^verbatim>\<open>id\<close>, \<^verbatim>\<open>userId\<close> and \<^verbatim>\<open>createdAt\<close>. The store after the second call is the store
  after the first, except that \<^verbatim>\<open>updatedAt\<close> of the target pet or routine is the time
  of the second call; it is the very same store for a visit, and for a pet or routine when
  both calls read the same time.
\<close>


lemma frame_refl:
  assumes "\<And>r. K r r"
  shows "list_all2 (\<lambda>old new. if c old then K old new else new = old) rows rows"
  by (induction rows) (simp_all add: assms)

lemma absent_kept_refl:
  "pet_absent_kept pin p p" "routine_absent_kept rin r r" "visit_absent_kept vin v v"
  by (simp_all add: pet_absent_kept_def routine_absent_kept_def visit_absent_kept_def)

lemma same_but_updatedAt_stamp:
  "pet_same_but_updatedAt p (p\<lparr>pet_updatedAt := t\<rparr>)"
  "routine_same_but_updatedAt r (r\<lparr>routine_updatedAt := t\<rparr>)"
  by (simp_all add: pet_same_but_updatedAt_def routine_same_but_updatedAt_def)

lemma same_but_updatedAt_refl:
  "pet_same_but_updatedAt p p" "routine_same_but_updatedAt r r"
  by (simp_all add: pet_same_but_updatedAt_def routine_same_but_updatedAt_def)

lemma updatePet_once_twice:
  assumes u: "requireUser c = Inr u" and dp: "Date_parse e' = Date_parse e"
  shows "\<exists>db1 db2.
      snd (updatePet c e i db) = db1 \<and> snd (updatePet c e' i db1) = db2
    \<and> list_all2 (\<lambda>old new. if pet_id old = up_id i \<and> pet_userId old = user_id u
                              then pet_absent_kept i old new else new = old) (Pets db) (Pets db1)
    \<and> db1 = db\<lparr>Pets := Pets db1\<rparr>
    \<and> list_all2 (\<lambda>once twice. if pet_id once = up_id i \<and> pet_userId once = user_id u
                              then pet_same_but_updatedAt once twice else twice = once)
        (Pets db1) (Pets db2)
    \<and> db2 = db1\<lparr>Pets := Pets db2\<rparr>
    \<and> (now1 e' = now1 e \<longrightarrow> db2 = db1)"
proof (cases "owns_pet db (user_id u) (up_id i)")
  case False
  then have "updatePet c x i db = (Inl (ActionError NOT_FOUND ''Pet not found.''), db)" for x
    by (simp add: updatePet_def u assertPetOwnership_not_owned)
  then show ?thesis
    by (simp add: frame_refl absent_kept_refl same_but_updatedAt_refl)
next
  case True
  let ?m = "\<lambda>p. pet_id p = up_id i \<and> pet_userId p = user_id u"
  from updatePet_twice [OF u dp True] obtain db1 db2 where
    1: "updatePet c e i db = (Inr Success, db1)" "updatePet c e' i db1 = (Inr Success, db2)"
    and 2: "list_all2 (\<lambda>old new. if ?m old then pet_absent_kept i old new else new = old)
            (Pets db) (Pets db1)"
    and 3: "db1 = db\<lparr>Pets := Pets db1\<rparr>"
    and 4: "db2 = db1\<lparr>Pets := update_where ?m (\<lambda>p. p\<lparr>pet_updatedAt := now1 e'\<rparr>) (Pets db1)\<rparr>"
    by blast
  from 1(1) updatePet_owned [OF u True, of e]
  have P1: "Pets db1 = update_where ?m (updatePet_updates e i) (Pets db)" by auto
  have P2: "Pets db2 = update_where ?m (\<lambda>p. p\<lparr>pet_updatedAt := now1 e'\<rparr>) (Pets db1)"
    by (simp add: 4)
  have 5: "list_all2 (\<lambda>once twice. if ?m once then pet_same_but_updatedAt once twice else twice = once)
      (Pets db1) (Pets db2)"
    unfolding P2 by (rule update_where_frame) (rule same_but_updatedAt_stamp)
  have 6: "db2 = db1\<lparr>Pets := Pets db2\<rparr>" by (simp add: 4)
  have 7: "now1 e' = now1 e \<longrightarrow> db2 = db1"
  proof
    assume "now1 e' = now1 e"
    with 4 have "db2 = db1\<lparr>Pets := Pets db1\<rparr>"
      by (simp add: P1 update_where_stamp_pet)
    then show "db2 = db1" by simp
  qed
  from 1 2 3 5 6 7 show ?thesis by simp
qed

lemma updatePetCareRoutine_once_twice:
  assumes u: "requireUser c = Inr u" and js: "JSON_stringify e' = JSON_stringify e"
  shows "\<exists>db1 db2.
      snd (updatePetCareRoutine c e i db) = db1 \<and> snd (updatePetCareRoutine c e' i db1) = db2
    \<and> list_all2 (\<lambda>old new. if routine_id old = ur_id i \<and> routine_userId old = user_id u
                              then routine_absent_kept i old new else new = old)
        (PetCareRoutines db) (PetCareRoutines db1)
    \<and> db1 = db\<lparr>PetCareRoutines := PetCareRoutines db1\<rparr>
    \<and> list_all2 (\<lambda>once twice. if routine_id once = ur_id i \<and> routine_userId once = user_id u
                              then routine_same_but_updatedAt once twice else twice = once)
        (PetCareRoutines db1) (PetCareRoutines db2)
    \<and> db2 = db1\<lparr>PetCareRoutines := PetCareRoutines db2\<rparr>
    \<and> (now1 e' = now1 e \<longrightarrow> db2 = db1)"
proof (cases "fst (updatePetCareRoutine c e i db)")
  case (Inl err)
  then have "updatePetCareRoutine c x i db = (Inl err, db)" for x
    by (rule updatePetCareRoutine_fails [OF u])
  then show ?thesis
    by (simp add: frame_refl absent_kept_refl same_but_updatedAt_refl)
next
  case (Inr x)
  let ?m = "\<lambda>r. routine_id r = ur_id i \<and> routine_userId r = user_id u"
  from u Inr obtain r0 rs p0 where
    f: "filter ?m (PetCareRoutines db) = r0 # rs"
    and p: "assertPetOwnership (case ur_petId i of None \<Rightarrow> routine_petId r0 | Some p \<Rightarrow> p)
              (user_id u) db = Inr p0"
    by (rule updatePetCareRoutine_succeeds)
  from updatePetCareRoutine_twice [OF u js f p] obtain db1 db2 where
    1: "updatePetCareRoutine c e i db = (Inr Success, db1)"
       "updatePetCareRoutine c e' i db1 = (Inr Success, db2)"
    and 3: "db1 = db\<lparr>PetCareRoutines :=
        update_where ?m (updatePetCareRoutine_updates e i) (PetCareRoutines db)\<rparr>"
    and 4: "db2 = db1\<lparr>PetCareRoutines :=
        update_where ?m (\<lambda>r. r\<lparr>routine_updatedAt := now1 e'\<rparr>) (PetCareRoutines db1)\<rparr>"
    by blast
  have R1: "PetCareRoutines db1 = update_where ?m (updatePetCareRoutine_updates e i) (PetCareRoutines db)"
    by (simp add: 3)
  have R2: "PetCareRoutines db2 =
      update_where ?m (\<lambda>r. r\<lparr>routine_updatedAt := now1 e'\<rparr>) (PetCareRoutines db1)"
    by (simp add: 4)
  have 2: "list_all2 (\<lambda>old new. if ?m old then routine_absent_kept i old new else new = old)
      (PetCareRoutines db) (PetCareRoutines db1)"
    unfolding R1 by (rule update_where_frame) (rule updatePetCareRoutine_updates_kept)
  have k3: "db1 = db\<lparr>PetCareRoutines := PetCareRoutines db1\<rparr>" by (simp add: 3)
  have 5: "list_all2 (\<lambda>once twice. if ?m once then routine_same_but_updatedAt once twice
      else twice = once) (PetCareRoutines db1) (PetCareRoutines db2)"
    unfolding R2 by (rule update_where_frame) (rule same_but_updatedAt_stamp)
  have 6: "db2 = db1\<lparr>PetCareRoutines := PetCareRoutines db2\<rparr>" by (simp add: 4)
  have 7: "now1 e' = now1 e \<longrightarrow> db2 = db1"
  proof
    assume "now1 e' = now1 e"
    with 4 have "db2 = db1\<lparr>PetCareRoutines := PetCareRoutines db1\<rparr>"
      by (simp add: R1 update_where_stamp_routine)
    then show "db2 = db1" by simp
  qed
  from 1 2 k3 5 6 7 show ?thesis by simp
qed

lemma updateVetVisit_once_twice:
  assumes u: "requireUser c = Inr u" and dp: "Date_parse e' = Date_parse e"
  shows "\<exists>db1.
      snd (updateVetVisit c e i db) = db1 \<and> snd (updateVetVisit c e' i db1) = db1
    \<and> list_all2 (\<lambda>old new. if visit_id old = uv_id i \<and> visit_userId old = user_id u
                              then visit_absent_kept i old new else new = old)
        (VetVisits db) (VetVisits db1)
    \<and> db1 = db\<lparr>VetVisits := VetVisits db1\<rparr>"
proof (cases "fst (updateVetVisit c e i db)")
  case (Inl err)
  then have "updateVetVisit c e' i db = (Inl err, db)" "updateVetVisit c e i db = (Inl err, db)"
    using updateVetVisit_fails [OF u dp] updateVetVisit_fails [OF u refl] by blast+
  then show ?thesis
    by (simp add: frame_refl absent_kept_refl)
next
  case (Inr x)
  let ?m = "\<lambda>v. visit_id v = uv_id i \<and> visit_userId v = user_id u"
  from u Inr obtain v0 vs p0 where
    f: "filter ?m (VetVisits db) = v0 # vs"
    and p: "assertPetOwnership (case uv_petId i of None \<Rightarrow> visit_petId v0 | Some p \<Rightarrow> p)
              (user_id u) db = Inr p0"
    and nv: "\<not> updateVetVisit_no_values e i"
    by (rule updateVetVisit_succeeds)
  from updateVetVisit_twice [OF u dp f p nv] obtain db1 where
    1: "updateVetVisit c e i db = (Inr Success, db1)" "updateVetVisit c e' i db1 = (Inr Success, db1)"
    and 3: "db1 = db\<lparr>VetVisits := update_where ?m (updateVetVisit_updates e i) (VetVisits db)\<rparr>"
    by blast
  have V1: "VetVisits db1 = update_where ?m (updateVetVisit_updates e i) (VetVisits db)"
    by (simp add: 3)
  have 2: "list_all2 (\<lambda>old new. if ?m old then visit_absent_kept i old new else new = old)
      (VetVisits db) (VetVisits db1)"
    unfolding V1 by (rule update_where_frame) (rule updateVetVisit_updates_kept)
  have k3: "db1 = db\<lparr>VetVisits := VetVisits db1\<rparr>" by (simp add: 3)
  from 1 2 k3 show ?thesis by simp
qed

text \<open>
  C3, as amended. For a signed-in caller, take \<^verbatim>\<open>updatePet\<close>, \<^verbatim>\<open>updatePetCareRoutine\<close>
  or \<^verbatim>\<open>updateVetVisit\<close>, the store it leaves, and the store that the same update
  leaves when it is applied again, with any other readings of the clock and of
  \<^verbatim>\<open>randomUUID\<close>. After the first call every row other than those with the id of the
  input and the caller's \<^verbatim>\<open>userId\<close> is as it was, the other tables are as they were,
  and in the rows of the caller with that id every column that the input does not set
  keeps its value, as do \<^verbatim>\<open>id\<close>, \<^verbatim>\<open>userId\<close> and \<^verbatim>\<open>createdAt\<close>; nothing is said
  of \<^verbatim>\<open>updatedAt\<close>. The store after the second call is, for a visit, the store after
  the first; for a pet or a routine it differs from it in the \<^verbatim>\<open>updatedAt\<close> of those
  rows at most, and not at all when the second call reads the time that the first read.
\<close>

theorem partial_update_twice:
  assumes u: "requireUser c = Inr u"
  shows
    "(let db1 = snd (updatePet c e pin db);
          db2 = snd (updatePet c (e\<lparr>randomUUID := x, now1 := t, now2 := t2\<rparr>) pin db1)
      in list_all2 (\<lambda>old new. if pet_id old = up_id pin \<and> pet_userId old = user_id u
                               then pet_absent_kept pin old new else new = old)
           (Pets db) (Pets db1)
         \<and> db1 = db\<lparr>Pets := Pets db1\<rparr>
         \<and> list_all2 (\<lambda>once twice. if pet_id once = up_id pin \<and> pet_userId once = user_id u
                                   then pet_same_but_updatedAt once twice else twice = once)
             (Pets db1) (Pets db2)
         \<and> db2 = db1\<lparr>Pets := Pets db2\<rparr>
         \<and> (t = now1 e \<longrightarrow> db2 = db1))
   \<and> (let db1 = snd (updatePetCareRoutine c e rin db);
          db2 = snd (updatePetCareRoutine c (e\<lparr>randomUUID := x, now1 := t, now2 := t2\<rparr>) rin db1)
      in list_all2 (\<lambda>old new. if routine_id old = ur_id rin \<and> routine_userId old = user_id u
                               then routine_absent_kept rin old new else new = old)
           (PetCareRoutines db) (PetCareRoutines db1)
         \<and> db1 = db\<lparr>PetCareRoutines := PetCareRoutines db1\<rparr>
         \<and> list_all2 (\<lambda>once twice. if routine_id once = ur_id rin \<and> routine_userId once = user_id u
                                   then routine_same_but_updatedAt once twice else twice = once)
             (PetCareRoutines db1) (PetCareRoutines db2)
         \<and> db2 = db1\<lparr>PetCareRoutines := PetCareRoutines db2\<rparr>
         \<and> (t = now1 e \<longrightarrow> db2 = db1))
   \<and> (let db1 = snd (updateVetVisit c e vin db);
          db2 = snd (updateVetVisit c (e\<lparr>randomUUID := x, now1 := t, now2 := t2\<rparr>) vin db1)
      in list_all2 (\<lambda>old new. if visit_id old = uv_id vin \<and> visit_userId old = user_id u
                               then visit_absent_kept vin old new else new = old)
           (VetVisits db) (VetVisits db1)
         \<and> db1 = db\<lparr>VetVisits := VetVisits db1\<rparr>
         \<and> db2 = db1)"
proof -
  let ?e' = "e\<lparr>randomUUID := x, now1 := t, now2 := t2\<rparr>"
  have b: "Date_parse ?e' = Date_parse e" "JSON_stringify ?e' = JSON_stringify e" by simp_all
  have n: "now1 ?e' = t" by simp
  from updatePet_once_twice [OF u b(1), of pin db]
    updatePetCareRoutine_once_twice [OF u b(2), of rin db]
    updateVetVisit_once_twice [OF u b(1), of vin db]
  show ?thesis
    unfolding Let_def n by (intro conjI) simp_all
qed


theorem partial_update_twice_witness:
  "snd (updatePet as_alice env0 (up_in ''p1'') db0)
     = db0\<lparr>Pets := [pet1\<lparr>pet_name := ''Rex'', pet_updatedAt := 5000\<rparr>, pet2, pet3]\<rparr>
   \<and> snd (updatePet as_alice env1 (up_in ''p1'') (snd (updatePet as_alice env0 (up_in ''p1'') db0)))
     = db0\<lparr>Pets := [pet1\<lparr>pet_name := ''Rex'', pet_updatedAt := 6000\<rparr>, pet2, pet3]\<rparr>
   \<and> snd (updatePetCareRoutine as_alice env0 (ur_in ''r1'' None) db0)
     = db0\<lparr>PetCareRoutines :=
           [routine1\<lparr>routine_description := Some ''twice'', routine_updatedAt := 5000\<rparr>, routine2]\<rparr>
   \<and> snd (updatePetCareRoutine as_alice env1 (ur_in ''r1'' None)
           (snd (updatePetCareRoutine as_alice env0 (ur_in ''r1'' None) db0)))
     = db0\<lparr>PetCareRoutines :=
           [routine1\<lparr>routine_description := Some ''twice'', routine_updatedAt := 6000\<rparr>, routine2]\<rparr>
   \<and> snd (updateVetVisit as_alice env0 (uv_in ''v1'' None) db0)
     = db0\<lparr>VetVisits := [visit1\<lparr>visit_diagnosis := Some ''healthy''\<rparr>, visit2]\<rparr>
   \<and> snd (updateVetVisit as_alice env1 (uv_in ''v1'' None)
           (snd (updateVetVisit as_alice env0 (uv_in ''v1'' None) db0)))
     = db0\<lparr>VetVisits := [visit1\<lparr>visit_diagnosis := Some ''healthy''\<rparr>, visit2]\<rparr>"
proof -
  have u: "requireUser as_alice = Inr alice" by (rule requireUser_as)
  note t = partial_update_twice [OF u, where db = db0 and e = env0 and x = "''u10''" and t = 6000 and ?t2.0 = 6002
      and pin = "up_in ''p1''" and rin = "ur_in ''r1'' None" and vin = "uv_in ''v1'' None"]
  have ev: "snd (updatePet as_alice env0 (up_in ''p1'') db0)
       = db0\<lparr>Pets := [pet1\<lparr>pet_name := ''Rex'', pet_updatedAt := 5000\<rparr>, pet2, pet3]\<rparr>"
    "snd (updatePetCareRoutine as_alice env0 (ur_in ''r1'' None) db0)
     = db0\<lparr>PetCareRoutines :=
           [routine1\<lparr>routine_description := Some ''twice'', routine_updatedAt := 5000\<rparr>, routine2]\<rparr>"
    "snd (updateVetVisit as_alice env0 (uv_in ''v1'' None) db0)
     = db0\<lparr>VetVisits := [visit1\<lparr>visit_diagnosis := Some ''healthy''\<rparr>, visit2]\<rparr>"
    by (simp_all add: updatePet_def updatePetCareRoutine_def updateVetVisit_def
        updateVetVisit_no_values_def
        updatePet_updates_def updatePetCareRoutine_updates_def updateVetVisit_updates_def
        assertPetOwnership_def assertRoutineOwnership_def update_where_def assign_def assign_opt_def
        requireUser_as user_id_as in_defs db0_def row_defs env0_def Let_def)
  have ev2: "snd (updatePet as_alice env1 (up_in ''p1'')
        (db0\<lparr>Pets := [pet1\<lparr>pet_name := ''Rex'', pet_updatedAt := 5000\<rparr>, pet2, pet3]\<rparr>))
       = db0\<lparr>Pets := [pet1\<lparr>pet_name := ''Rex'', pet_updatedAt := 6000\<rparr>, pet2, pet3]\<rparr>"
    "snd (updatePetCareRoutine as_alice env1 (ur_in ''r1'' None)
        (db0\<lparr>PetCareRoutines :=
           [routine1\<lparr>routine_description := Some ''twice'', routine_updatedAt := 5000\<rparr>, routine2]\<rparr>))
     = db0\<lparr>PetCareRoutines :=
           [routine1\<lparr>routine_description := Some ''twice'', routine_updatedAt := 6000\<rparr>, routine2]\<rparr>"
    by (simp_all add: updatePet_def updatePetCareRoutine_def
        updatePet_updates_def updatePetCareRoutine_updates_def
        assertPetOwnership_def assertRoutineOwnership_def update_where_def assign_def assign_opt_def
        requireUser_as user_id_as in_defs db0_def row_defs env1_def env0_def Let_def)
  from t have ev3: "snd (updateVetVisit as_alice env1 (uv_in ''v1'' None)
           (snd (updateVetVisit as_alice env0 (uv_in ''v1'' None) db0)))
      = snd (updateVetVisit as_alice env0 (uv_in ''v1'' None) db0)"
    by (simp only: Let_def env1_def)
  show ?thesis
    apply (intro conjI)
         apply (rule ev(1))
        apply (simp only: ev(1) ev2(1))
       apply (rule ev(2))
      apply (simp only: ev(2) ev2(2))
     apply (rule ev(3))
    apply (insert ev3)
    apply (simp only: ev(3))
    done
qed

text \<open>
  As the claim is stated, with the final stored state the same after two applications as
  after one, it fails: \<^verbatim>\<open>updatePet\<close> stamps \<^verbatim>\<open>updatedAt\<close> at every call, a column
  that no input can name.
\<close>

theorem partial_update_twice_counterexample:
  "snd (updatePet as_alice env1 (up_in ''p1'') (snd (updatePet as_alice env0 (up_in ''p1'') db0)))
     \<noteq> snd (updatePet as_alice env0 (up_in ''p1'') db0)
   \<and> up_id (up_in ''p1'') = ''p1''
   \<and> map pet_updatedAt (Pets db0) = [100, 200, 300]
   \<and> map pet_updatedAt (Pets (snd (updatePet as_alice env0 (up_in ''p1'') db0))) = [5000, 200, 300]
   \<and> map pet_updatedAt
        (Pets (snd (updatePet as_alice env1 (up_in ''p1'') (snd (updatePet as_alice env0 (up_in ''p1'') db0)))))
       = [6000, 200, 300]"
  by (simp add: updatePet_def updatePet_updates_def assertPetOwnership_def update_where_def
      assign_def assign_opt_def requireUser_as user_id_as in_defs db0_def row_defs env0_def env1_def)



subsection \<open>The store keeps the references of the schema\<close>

text \<open>
  A pet that a row still names cannot be deleted, and no request leaves a store in which
  a reference of the schema is broken: the two refusals of the store are the only places
  where a handler could break one.
\<close>

lemma deletePet_referenced:
  assumes u: "requireUser c = Inr u" and own: "owns_pet db (user_id u) i"
    and ref: "pet_referenced db i"
  shows "deletePet c i db = (Inl (StoreError ForeignKeyConstraint), db)"
proof -
  from own obtain p where "assertPetOwnership i (user_id u) db = Inr p"
    by (rule assertPetOwnership_owned)
  then show ?thesis by (simp add: deletePet_def u ref)
qed

lemma pet_ids_update_where:
  assumes "\<And>r. pet_id (f r) = pet_id r"
  shows "(\<exists>p \<in> set (update_where m f rows). pet_id p = x) = (\<exists>p \<in> set rows. pet_id p = x)"
  by (rule update_where_ex) (simp add: assms)

lemma routine_ids_update_where:
  assumes "\<And>r. routine_id (f r) = routine_id r"
  shows "(\<exists>p \<in> set (update_where m f rows). routine_id p = x) = (\<exists>p \<in> set rows. routine_id p = x)"
  by (rule update_where_ex) (simp add: assms)

lemma assertPetOwnership_exists:
  "assertPetOwnership i uid db = Inr p \<Longrightarrow> \<exists>p \<in> set (Pets db). pet_id p = i"
  by (auto simp: assertPetOwnership_def split: list.splits dest!: filter_eq_ConsD)

lemma references_createPet:
  "references_ok db \<Longrightarrow> references_ok (snd (createPet c e i db))"
  by (auto simp: references_ok_def routine_reference_ok_def createPet_def Let_def
      split: sum.splits option.splits)

lemma references_updatePet:
  "references_ok db \<Longrightarrow> references_ok (snd (updatePet c e i db))"
  by (auto simp: references_ok_def routine_reference_ok_def updatePet_def
      pet_ids_update_where updatePet_updates_def
      split: sum.splits option.splits)

lemma references_deletePet:
  "references_ok db \<Longrightarrow> references_ok (snd (deletePet c i db))"
  by (fastforce simp: references_ok_def routine_reference_ok_def deletePet_def delete_where_def
      pet_referenced_def split: sum.splits option.splits if_splits)

lemma references_createPetCareRoutine:
  "references_ok db \<Longrightarrow> references_ok (snd (createPetCareRoutine c e i db))"
  by (auto simp: references_ok_def routine_reference_ok_def createPetCareRoutine_def Let_def
      split: sum.splits option.splits dest: assertPetOwnership_exists)

lemma routine_petId_update_where:
  assumes "r \<in> set (update_where m (updatePetCareRoutine_updates e i) rows)"
  shows "(\<exists>r' \<in> set rows. routine_petId r = routine_petId r') \<or> ur_petId i = Some (routine_petId r)"
  using assms
  by (induction rows)
    (auto simp: update_where_def updatePetCareRoutine_updates_def assign_def
      split: if_splits option.splits)

lemma references_updatePetCareRoutine:
  assumes "references_ok db"
  shows "references_ok (snd (updatePetCareRoutine c e i db))"
proof (cases "requireUser c")
  case (Inl err)
  then show ?thesis using assms by (simp add: updatePetCareRoutine_def)
next
  case u: (Inr u)
  show ?thesis
  proof (cases "fst (updatePetCareRoutine c e i db)")
    case (Inl err)
    then have "updatePetCareRoutine c e i db = (Inl err, db)"
      by (rule updatePetCareRoutine_fails [OF u])
    with assms show ?thesis by simp
  next
    case (Inr x)
    with u obtain r0 rs p0 where
      f: "filter (\<lambda>r. routine_id r = ur_id i \<and> routine_userId r = user_id u) (PetCareRoutines db)
            = r0 # rs"
      and p: "assertPetOwnership (case ur_petId i of None \<Rightarrow> routine_petId r0 | Some p \<Rightarrow> p)
              (user_id u) db = Inr p0"
      by (rule updatePetCareRoutine_succeeds)
    have s: "snd (updatePetCareRoutine c e i db) =
      db\<lparr>PetCareRoutines :=
          update_where (\<lambda>r. routine_id r = ur_id i \<and> routine_userId r = user_id u)
            (updatePetCareRoutine_updates e i) (PetCareRoutines db)\<rparr>"
      by (simp add: updatePetCareRoutine_def u assertRoutineOwnership_def f p)
    have new: "ur_petId i = Some x \<Longrightarrow> \<exists>p \<in> set (Pets db). pet_id p = x" for x
      using p by (auto dest: assertPetOwnership_exists)
    show ?thesis
      unfolding s using assms
      by (auto simp: references_ok_def routine_reference_ok_def routine_ids_update_where
          updatePetCareRoutine_updates_key split: option.splits
          dest!: routine_petId_update_where dest: new)
  qed
qed

lemma update_where_key_mem:
  assumes "r \<in> set (update_where m f rows)" "\<And>x. k (f x) = k x"
  shows "\<exists>r' \<in> set rows. k r = k r'"
  using assms(1) by (induction rows) (auto simp: update_where_def assms(2) split: if_splits)

lemma references_archivePetCareRoutine:
  assumes "references_ok db"
  shows "references_ok (snd (archivePetCareRoutine c e i db))"
proof -
  have k: "r \<in> set (update_where m (\<lambda>r. r\<lparr>routine_isActive := False, routine_updatedAt := t\<rparr>) rows)
      \<Longrightarrow> \<exists>r' \<in> set rows. routine_petId r = routine_petId r'" for r m t rows
    by (rule update_where_key_mem
        [where k = routine_petId and m = m
          and f = "\<lambda>r. r\<lparr>routine_isActive := False, routine_updatedAt := t\<rparr>"]) simp_all
  show ?thesis
    using assms
    by (auto simp: references_ok_def routine_reference_ok_def archivePetCareRoutine_def
        routine_ids_update_where split: sum.splits option.splits dest!: k)
qed

lemma references_createPetCareLog:
  "references_ok db \<Longrightarrow> references_ok (snd (createPetCareLog c e i db))"
  by (auto simp: references_ok_def routine_reference_ok_def createPetCareLog_def Let_def
      split: sum.splits option.splits if_splits dest: assertPetOwnership_exists)

lemma references_deletePetCareLog:
  "references_ok db \<Longrightarrow> references_ok (snd (deletePetCareLog c i db))"
  by (auto simp: references_ok_def routine_reference_ok_def deletePetCareLog_def delete_where_def
      split: sum.splits option.splits list.splits)

lemma references_createVetVisit:
  "references_ok db \<Longrightarrow> references_ok (snd (createVetVisit c e i db))"
  by (auto simp: references_ok_def routine_reference_ok_def createVetVisit_def Let_def
      split: sum.splits option.splits dest: assertPetOwnership_exists)

lemma visit_petId_update_where:
  assumes "v \<in> set (update_where m (updateVetVisit_updates e i) rows)"
  shows "(\<exists>v' \<in> set rows. visit_petId v = visit_petId v') \<or> uv_petId i = Some (visit_petId v)"
  using assms
  by (induction rows)
    (auto simp: update_where_def updateVetVisit_updates_def assign_def
      split: if_splits option.splits)

lemma references_updateVetVisit:
  assumes "references_ok db"
  shows "references_ok (snd (updateVetVisit c e i db))"
proof (cases "requireUser c")
  case (Inl err)
  then show ?thesis using assms by (simp add: updateVetVisit_def)
next
  case u: (Inr u)
  show ?thesis
  proof (cases "fst (updateVetVisit c e i db)")
    case (Inl err)
    then have "updateVetVisit c e i db = (Inl err, db)"
      by (rule updateVetVisit_fails [OF u refl])
    with assms show ?thesis by simp
  next
    case (Inr x)
    with u obtain v0 vs p0 where
      f: "filter (\<lambda>v. visit_id v = uv_id i \<and> visit_userId v = user_id u) (VetVisits db) = v0 # vs"
      and p: "assertPetOwnership (case uv_petId i of None \<Rightarrow> visit_petId v0 | Some p \<Rightarrow> p)
              (user_id u) db = Inr p0"
      and nv: "\<not> updateVetVisit_no_values e i"
      by (rule updateVetVisit_succeeds)
    have s: "snd (updateVetVisit c e i db) =
      db\<lparr>VetVisits :=
          update_where (\<lambda>v. visit_id v = uv_id i \<and> visit_userId v = user_id u)
            (updateVetVisit_updates e i) (VetVisits db)\<rparr>"
      by (simp add: updateVetVisit_def u f p nv)
    have new: "uv_petId i = Some x \<Longrightarrow> \<exists>p \<in> set (Pets db). pet_id p = x" for x
      using p by (auto dest: assertPetOwnership_exists)
    show ?thesis
      unfolding s using assms
      by (auto simp: references_ok_def routine_reference_ok_def split: option.splits
          dest!: visit_petId_update_where dest: new)
  qed
qed

lemma references_deleteVetVisit:
  "references_ok db \<Longrightarrow> references_ok (snd (deleteVetVisit c i db))"
  by (auto simp: references_ok_def routine_reference_ok_def deleteVetVisit_def delete_where_def
      split: sum.splits option.splits list.splits)

lemma references_lists:
  "snd (listPets c db) = db" "snd (listPetCareRoutines c i0 db) = db"
  "snd (listPetCareLogs c i1 db) = db" "snd (listVetVisits c i2 db) = db"
  by (simp_all add: listPets_def listPetCareRoutines_def listPetCareLogs_def listVetVisits_def
      Let_def split: sum.splits)

lemma server_keeps_references:
  "references_ok db \<Longrightarrow> references_ok (snd (server c e req db))"
  by (cases req)
    (simp_all add: references_createPet references_updatePet references_deletePet
      references_createPetCareRoutine references_updatePetCareRoutine
      references_archivePetCareRoutine references_createPetCareLog references_deletePetCareLog
      references_createVetVisit references_updateVetVisit references_deleteVetVisit
      references_lists)

lemma references_db0: "references_ok db0"
  by (simp add: references_ok_def routine_reference_ok_def db0_def row_defs)


end
